theory Spec2Isabelle
  imports Main
begin

section \<open>Python strings\<close>

text \<open>
  A Python \<^verbatim>\<open>str\<close> is a sequence of Unicode code points. The embedding covers
  the code points U+0000 to U+00FF: a \<^typ>\<open>char\<close> stands for the code point with
  its number, and the built-in methods the program calls (\<^verbatim>\<open>strip\<close>,
  \<^verbatim>\<open>split\<close>, \<^verbatim>\<open>lower\<close>, \<^verbatim>\<open>upper\<close>, \<^verbatim>\<open>isdigit\<close>,
  \<^verbatim>\<open>join\<close>, \<^verbatim>\<open>int\<close>) are written out for that range as CPython
  computes them.
\<close>

definition isspace :: "char \<Rightarrow> bool" where
  "isspace c = (c \<in> set [CHR 0x09, CHR 0x0A, CHR 0x0B, CHR 0x0C, CHR 0x0D,
                          CHR 0x1C, CHR 0x1D, CHR 0x1E, CHR 0x1F, CHR 0x20,
                          CHR 0x85, CHR 0xA0])"

definition strip :: "string \<Rightarrow> string" where
  "strip s = rev (dropWhile isspace (rev (dropWhile isspace s)))"

text \<open>\<^verbatim>\<open>s.split(',')\<close>: every separator ends a token, so the empty string gives one empty token.\<close>

fun split_sep :: "char \<Rightarrow> string \<Rightarrow> string list" where
  "split_sep sep [] = [[]]"
| "split_sep sep (c # cs) =
     (if c = sep then [] # split_sep sep cs
      else (case split_sep sep cs of
              [] \<Rightarrow> [[c]]
            | t # ts \<Rightarrow> (c # t) # ts))"

text \<open>\<^verbatim>\<open>s.split()\<close>: tokens are the maximal runs of non-whitespace; \<open>cur\<close> is the run being read.\<close>

fun split_ws_from :: "string \<Rightarrow> string \<Rightarrow> string list" where
  "split_ws_from cur [] = (if cur = [] then [] else [cur])"
| "split_ws_from cur (c # cs) =
     (if isspace c then (if cur = [] then split_ws_from [] cs else cur # split_ws_from [] cs)
      else split_ws_from (cur @ [c]) cs)"

definition split_ws :: "string \<Rightarrow> string list" where
  "split_ws s = split_ws_from [] s"

fun join :: "string \<Rightarrow> string list \<Rightarrow> string" where
  "join sep [] = []"
| "join sep [x] = x"
| "join sep (x # y # ys) = x @ sep @ join sep (y # ys)"

definition lower_char :: "char \<Rightarrow> char" where
  "lower_char c =
     (let n = (of_char c :: nat) in
      if (0x41 \<le> n \<and> n \<le> 0x5A) \<or> (0xC0 \<le> n \<and> n \<le> 0xDE \<and> n \<noteq> 0xD7)
      then char_of (n + 0x20) else c)"

definition lower :: "string \<Rightarrow> string" where
  "lower s = map lower_char s"

text \<open>
  \<^verbatim>\<open>upper\<close> leaves the range: U+00B5 becomes U+039C, U+00FF becomes U+0178 and
  U+00DF becomes two letters, so its result is a list of code points.
\<close>

definition upper_char :: "char \<Rightarrow> nat list" where
  "upper_char c =
     (let n = (of_char c :: nat) in
      if 0x61 \<le> n \<and> n \<le> 0x7A then [n - 0x20]
      else if n = 0xB5 then [0x39C]
      else if n = 0xDF then [0x53, 0x53]
      else if 0xE0 \<le> n \<and> n \<le> 0xFE \<and> n \<noteq> 0xF7 then [n - 0x20]
      else if n = 0xFF then [0x178]
      else [n])"

definition upper :: "string \<Rightarrow> nat list" where
  "upper s = concat (map upper_char s)"

definition code_points :: "string \<Rightarrow> nat list" where
  "code_points s = map of_char s"

definition decimal_char :: "char \<Rightarrow> bool" where
  "decimal_char c = (0x30 \<le> (of_char c :: nat) \<and> (of_char c :: nat) \<le> 0x39)"

text \<open>\<^verbatim>\<open>isdigit\<close> also accepts the superscript digits U+00B2, U+00B3 and U+00B9.\<close>

definition digit_char :: "char \<Rightarrow> bool" where
  "digit_char c = (decimal_char c \<or> c \<in> set [CHR 0xB2, CHR 0xB3, CHR 0xB9])"

definition isdigit :: "string \<Rightarrow> bool" where
  "isdigit s = (s \<noteq> [] \<and> list_all digit_char s)"

datatype exn =
    AttributeError
  | TypeError
  | ValueError
  | IndexError
  | InvalidId
  | ValidationError
  | UpstreamError string

text \<open>
  \<^verbatim>\<open>int(s)\<close> on a string: surrounding whitespace is dropped, one sign is allowed,
  then decimal digits, with single underscores between digits. The whitespace that
  \<^verbatim>\<open>int\<close> drops is not all that \<^verbatim>\<open>strip\<close> drops: the separators U+001C
  to U+001F are left and make the conversion fail. A literal of more digits than
  \<^verbatim>\<open>sys.int_max_str_digits\<close>, 4300 unless the interpreter is told otherwise, is
  refused; underscores, sign and whitespace do not count.
\<close>

definition int_max_str_digits :: nat where
  "int_max_str_digits = 4300"

definition int_space :: "char \<Rightarrow> bool" where
  "int_space c = (c \<in> set [CHR 0x09, CHR 0x0A, CHR 0x0B, CHR 0x0C, CHR 0x0D, CHR 0x20,
                            CHR 0x85, CHR 0xA0])"

fun digits_ok :: "bool \<Rightarrow> string \<Rightarrow> bool" where
  "digits_ok after_digit [] = after_digit"
| "digits_ok after_digit (c # cs) =
     (if decimal_char c then digits_ok True cs
      else if c = CHR ''_'' then after_digit \<and> cs \<noteq> [] \<and> decimal_char (hd cs) \<and> digits_ok False cs
      else False)"

definition digits_value :: "string \<Rightarrow> int" where
  "digits_value s =
     foldl (\<lambda>acc c. 10 * acc + (int (of_char c) - 0x30)) 0 (filter (\<lambda>c. c \<noteq> CHR ''_'') s)"

definition py_int :: "string \<Rightarrow> exn + int" where
  "py_int s =
     (let t = rev (dropWhile int_space (rev (dropWhile int_space s)));
          neg = (t \<noteq> [] \<and> hd t = CHR ''-'');
          body = (if t \<noteq> [] \<and> (hd t = CHR ''-'' \<or> hd t = CHR ''+'') then tl t else t)
      in if digits_ok False body
            \<and> length (filter (\<lambda>c. c \<noteq> CHR ''_'') body) \<le> int_max_str_digits
         then Inr (if neg then - digits_value body else digits_value body)
         else Inl ValueError)"

section \<open>Documents\<close>

text \<open>
  The documents of the store and the company profile are Python dictionaries with string
  keys. A dictionary is an association list in insertion order; the values are the
  BSON values the program looks at. \<open>PObjectId\<close> carries the hexadecimal digits that
  \<^verbatim>\<open>str\<close> prints for the identifier, 24 of them when it is well formed.
\<close>

datatype pyval =
    PNone
  | PBool bool
  | PInt int
  | PStr string
  | PObjectId string
  | PList "pyval list"
  | PDict "(string \<times> pyval) list"

type_synonym doc = "(string \<times> pyval) list"

fun serialize_doc :: "pyval \<Rightarrow> pyval" where
  "serialize_doc PNone = PNone"
| "serialize_doc (PList items) = PList (map serialize_doc items)"
| "serialize_doc (PDict kvs) = PDict (map (map_prod id serialize_doc) kvs)"
| "serialize_doc (PObjectId h) = PStr h"
| "serialize_doc v = v"

fun truthy :: "pyval \<Rightarrow> bool" where
  "truthy PNone = False"
| "truthy (PBool b) = b"
| "truthy (PInt i) = (i \<noteq> 0)"
| "truthy (PStr s) = (s \<noteq> [])"
| "truthy (PObjectId h) = True"
| "truthy (PList xs) = (xs \<noteq> [])"
| "truthy (PDict kvs) = (kvs \<noteq> [])"

definition bind :: "exn + 'a \<Rightarrow> ('a \<Rightarrow> exn + 'b) \<Rightarrow> exn + 'b" where
  "bind m f = (case m of Inl e \<Rightarrow> Inl e | Inr x \<Rightarrow> f x)"

text \<open>\<^verbatim>\<open>d.get(k, default)\<close> on a dictionary, and on a value that may not be one.\<close>

definition dict_get :: "doc \<Rightarrow> string \<Rightarrow> pyval \<Rightarrow> pyval" where
  "dict_get d k dflt = (case map_of d k of None \<Rightarrow> dflt | Some v \<Rightarrow> v)"

definition attr_get :: "pyval \<Rightarrow> string \<Rightarrow> pyval \<Rightarrow> exn + pyval" where
  "attr_get v k dflt = (case v of PDict d \<Rightarrow> Inr (dict_get d k dflt) | _ \<Rightarrow> Inl AttributeError)"

text \<open>\<^verbatim>\<open>d[k] = v\<close>: an existing key keeps its place, a new key goes last.\<close>

definition dict_set :: "doc \<Rightarrow> string \<Rightarrow> pyval \<Rightarrow> doc" where
  "dict_set d k v =
     (if k \<in> set (map fst d) then map (\<lambda>kv. if fst kv = k then (k, v) else kv) d
      else d @ [(k, v)])"

text \<open>\<^verbatim>\<open>v[:n]\<close>: strings and lists can be sliced, every other value raises.\<close>

definition slice_to :: "nat \<Rightarrow> pyval \<Rightarrow> exn + pyval" where
  "slice_to n v =
     (case v of
        PStr s \<Rightarrow> Inr (PStr (take n s))
      | PList xs \<Rightarrow> Inr (PList (take n xs))
      | _ \<Rightarrow> Inl TypeError)"

text \<open>
  Iterating a value: a list gives its items, a string its characters, a dictionary its
  keys; the other values are not iterable.
\<close>

definition iter_items :: "pyval \<Rightarrow> exn + pyval list" where
  "iter_items v =
     (case v of
        PList xs \<Rightarrow> Inr xs
      | PStr s \<Rightarrow> Inr (map (\<lambda>c. PStr [c]) s)
      | PDict kvs \<Rightarrow> Inr (map (\<lambda>kv. PStr (fst kv)) kvs)
      | _ \<Rightarrow> Inl TypeError)"

fun str_items :: "pyval list \<Rightarrow> exn + string list" where
  "str_items [] = Inr []"
| "str_items (PStr s # vs) = bind (str_items vs) (\<lambda>ss. Inr (s # ss))"
| "str_items (v # vs) = Inl TypeError"

text \<open>\<^verbatim>\<open>sep.join(v)\<close>: every item of the iterable must be a string.\<close>

definition join_val :: "string \<Rightarrow> pyval \<Rightarrow> exn + string" where
  "join_val sep v = bind (iter_items v) (\<lambda>items. bind (str_items items) (\<lambda>ss. Inr (join sep ss)))"

text \<open>
  \<^verbatim>\<open>bytes.fromhex(s)\<close> reads pairs of hexadecimal digits and skips the ASCII
  whitespace that stands between pairs; anything else raises. The bytes read are given by
  their digits.
\<close>

definition hex_char :: "char \<Rightarrow> bool" where
  "hex_char c = (c \<in> set ''0123456789abcdefABCDEF'')"

definition hex_space :: "char \<Rightarrow> bool" where
  "hex_space c = (c \<in> set [CHR 0x09, CHR 0x0A, CHR 0x0B, CHR 0x0C, CHR 0x0D, CHR 0x20])"

fun fromhex :: "string \<Rightarrow> exn + string" where
  "fromhex [] = Inr []"
| "fromhex [c] = (if hex_space c then Inr [] else Inl ValueError)"
| "fromhex (c # d # ds) =
     (if hex_space c then fromhex (d # ds)
      else if hex_char c \<and> hex_char d then bind (fromhex ds) (\<lambda>rest. Inr (c # d # rest))
      else Inl ValueError)"

text \<open>
  \<^verbatim>\<open>ObjectId(s)\<close> on a string, as the driver builds it: a string of 24 characters
  goes through \<^verbatim>\<open>bytes.fromhex\<close>, and the bytes it reads are the identifier, which
  prints as lower-case digits; any other string, and a string that
  \<^verbatim>\<open>bytes.fromhex\<close> refuses, raises. The length is all that is checked before,
  so 24 characters with whitespace among them give an identifier of fewer than twelve bytes.
\<close>

definition object_id :: "string \<Rightarrow> exn + pyval" where
  "object_id s =
     (if length s = 24
      then (case fromhex s of
              Inl e \<Rightarrow> Inl InvalidId
            | Inr digits \<Rightarrow> Inr (PObjectId (lower digits)))
      else Inl InvalidId)"

section \<open>The completion service\<close>

text \<open>
  A prompt is an f-string. Formatting a value never raises, so a prompt is kept as its
  pieces: the literal text and the values formatted into it. What can raise is the
  expression inside the braces, and that is evaluated here.
\<close>

datatype piece = Lit string | Fmt pyval

record request =
  system_content :: string
  user_content :: "piece list"
  temperature_tenths :: nat
  max_tokens :: nat

text \<open>
  The completion service is a collaborator, given as a function of the request. It stands
  for the construction of the client, one call
  \<^verbatim>\<open>client.chat.completions.create(...)\<close> and the read of
  \<^verbatim>\<open>response.choices[0].message.content\<close>: one of them raises (\<open>Inl\<close>), or the
  content is \<^verbatim>\<open>None\<close> or a text. \<open>exn\<close> lists instances of
  \<^verbatim>\<open>Exception\<close>, which is what the program's handlers catch. Every function
  below returns, beside its result, the requests it has issued. A request is what the
  program passes to the call, but for the deployment name, which is a setting.
\<close>

type_synonym completion = "request \<Rightarrow> exn + string option"

subsection \<open>ai_filter_circulars\<close>

definition circular_block :: "nat \<Rightarrow> doc \<Rightarrow> exn + piece list" where
  "circular_block idx circular =
     bind (attr_get (dict_get circular ''description'' (PDict [])) ''summary'' (PStr ''N/A''))
       (\<lambda>summary.
     bind (slice_to 200 summary) (\<lambda>summary200.
     bind (slice_to 5 (dict_get circular ''affected_entities'' (PList []))) (\<lambda>entities.
     bind (join_val '', '' entities) (\<lambda>entities_text.
     bind (slice_to 10 (dict_get circular ''tags'' (PList []))) (\<lambda>tags.
     bind (join_val '', '' tags) (\<lambda>tags_text.
     Inr [Lit ''\<newline>'', Fmt (PInt (int idx + 1)), Lit ''. Title: '',
          Fmt (dict_get circular ''title'' (PStr ''N/A'')), Lit ''\<newline>'',
          Lit ''   Summary: '', Fmt summary200, Lit ''...\<newline>'',
          Lit ''   Affected Entities: '', Fmt (PStr entities_text), Lit ''\<newline>'',
          Lit ''   Tags: '', Fmt (PStr tags_text), Lit ''\<newline>'']))))))"

text \<open>The loop over \<^verbatim>\<open>enumerate(circulars)\<close>; \<open>idx\<close> is the index of the head.\<close>

fun circulars_text :: "nat \<Rightarrow> doc list \<Rightarrow> exn + piece list" where
  "circulars_text idx [] = Inr []"
| "circulars_text idx (circular # rest) =
     bind (circular_block idx circular) (\<lambda>block.
     bind (circulars_text (Suc idx) rest) (\<lambda>blocks. Inr (block @ blocks)))"

definition filter_instructions :: string where
  \<open>filter_instructions = ''\<newline>\<newline>Instructions:\<newline>1. Determine which circulars are DIRECTLY relevant to this company's operations\<newline>2. Consider the company's industry, services, and business activities\<newline>3. Return ONLY the numbers of relevant circulars as a comma-separated list (e.g., "1, 3, 5, 7")\<newline>4. If none are relevant, return "NONE"\<newline>5. Do not include explanations\<newline>\<newline>Response (comma-separated numbers only):''\<close>

definition filter_prompt :: "doc \<Rightarrow> doc list \<Rightarrow> exn + piece list" where
  "filter_prompt company_profile circulars =
     bind (circulars_text 0 circulars) (\<lambda>text.
     bind (join_val '', '' (dict_get company_profile ''services'' (PList []))) (\<lambda>services.
     bind (slice_to 200 (dict_get company_profile ''description'' (PStr ''N/A''))) (\<lambda>description.
     Inr ([Lit ''You are a Nigerian regulatory compliance expert. Analyze which circulars are relevant to this company.\<newline>\<newline>Company Profile:\<newline>- Name: '',
           Fmt (dict_get company_profile ''name'' (PStr ''N/A'')),
           Lit ''\<newline>- Industry: '', Fmt (dict_get company_profile ''industry'' (PStr ''N/A'')),
           Lit ''\<newline>- Business Category: '',
           Fmt (dict_get company_profile ''businessCategory'' (PStr ''N/A'')),
           Lit ''\<newline>- Services: '', Fmt (PStr services),
           Lit ''\<newline>- Description: '', Fmt description,
           Lit ''\<newline>\<newline>Circulars to Analyze:\<newline>'']
          @ text @ [Lit filter_instructions]))))"

definition filter_request :: "piece list \<Rightarrow> request" where
  "filter_request prompt =
     \<lparr>system_content =
        ''You are a regulatory compliance expert. Respond only with comma-separated numbers.'',
      user_content = prompt, temperature_tenths = 2, max_tokens = 200\<rparr>"

text \<open>
  The list comprehension over the comma-separated tokens: a token that passes
  \<^verbatim>\<open>isdigit\<close> is converted by \<^verbatim>\<open>int\<close>, which can raise.
\<close>

fun relevant_indices :: "string list \<Rightarrow> exn + int list" where
  "relevant_indices [] = Inr []"
| "relevant_indices (num # nums) =
     (if isdigit (strip num)
      then bind (py_int (strip num)) (\<lambda>n.
           bind (relevant_indices nums) (\<lambda>rest. Inr ((n - 1) # rest)))
      else relevant_indices nums)"

definition pick_circulars :: "doc list \<Rightarrow> int list \<Rightarrow> doc list" where
  "pick_circulars circulars idxs =
     map (\<lambda>idx. circulars ! nat idx)
       (filter (\<lambda>idx. 0 \<le> idx \<and> idx < int (length circulars)) idxs)"

text \<open>The body of the \<^verbatim>\<open>try\<close> block, from the reply on.\<close>

definition parse_filter_reply :: "doc list \<Rightarrow> string option \<Rightarrow> exn + doc list" where
  "parse_filter_reply circulars content =
     (case content of
        None \<Rightarrow> Inl AttributeError
      | Some text \<Rightarrow>
          (let result = strip text in
           if upper result = code_points ''NONE'' then Inr []
           else bind (relevant_indices (split_sep CHR '','' result))
                  (\<lambda>idxs. Inr (pick_circulars circulars idxs))))"

definition ai_filter_circulars ::
  "completion \<Rightarrow> doc \<Rightarrow> doc list \<Rightarrow> (exn + doc list) \<times> request list" where
  "ai_filter_circulars llm company_profile circulars =
     (if circulars = [] then (Inr [], [])
      else (case filter_prompt company_profile circulars of
              Inl e \<Rightarrow> (Inl e, [])
            | Inr prompt \<Rightarrow>
                (case bind (llm (filter_request prompt)) (parse_filter_reply circulars) of
                   Inl e \<Rightarrow> (Inr circulars, [filter_request prompt])
                 | Inr relevant \<Rightarrow> (Inr relevant, [filter_request prompt]))))"

subsection \<open>suggest_regulators\<close>

definition regulators :: "(string \<times> string) list" where
  "regulators =
     [(''CBN'', ''Central Bank of Nigeria - Regulates banks, payment service providers, fintech, and financial institutions''),
      (''NDPC'', ''Nigeria Data Protection Commission - Regulates data protection and privacy compliance''),
      (''NDIC'', ''Nigeria Deposit Insurance Corporation - Regulates deposit-taking institutions''),
      (''SEC'', ''Securities and Exchange Commission - Regulates capital markets, investments, securities''),
      (''FCCPC'', ''Federal Competition and Consumer Protection Commission - Regulates consumer protection and fair competition''),
      (''EFCC'', ''Economic and Financial Crimes Commission - Regulates anti-money laundering and financial crimes prevention''),
      (''NAICOM'', ''National Insurance Commission - Regulates insurance companies and related services'')]"

definition regulator_instructions :: string where
  \<open>regulator_instructions = ''\<newline>\<newline>Instructions:\<newline>1. Analyze the company's industry, services, and business activities\<newline>2. Suggest ONLY the regulators that are directly relevant to this company\<newline>3. Return ONLY the regulator codes as a comma-separated list (e.g., "CBN, NDPC, FCCPC")\<newline>4. Do not include explanations or additional text\<newline>5. If the company operates in Nigeria and handles financial services, CBN is likely relevant\<newline>6. If they handle customer data, NDPC is relevant\<newline>7. If they take deposits, NDIC is relevant\<newline>8. If they deal with securities/investments, SEC is relevant\<newline>9. If they provide insurance, NAICOM is relevant\<newline>\<newline>Response (comma-separated regulator codes only):''\<close>

definition regulator_prompt :: "doc \<Rightarrow> exn + piece list" where
  "regulator_prompt company_profile =
     bind (join_val '', '' (dict_get company_profile ''services'' (PList []))) (\<lambda>services.
     Inr [Lit ''You are a Nigerian regulatory compliance expert. Based on the company profile below, suggest which regulators are relevant.\<newline>\<newline>Company Profile:\<newline>- Industry: '',
          Fmt (dict_get company_profile ''industry'' (PStr ''N/A'')),
          Lit ''\<newline>- Business Category: '',
          Fmt (dict_get company_profile ''businessCategory'' (PStr ''N/A'')),
          Lit ''\<newline>- Business Sub-Category: '',
          Fmt (dict_get company_profile ''businessSubCategory'' (PStr ''N/A'')),
          Lit ''\<newline>- Services: '', Fmt (PStr services),
          Lit ''\<newline>- Category: '', Fmt (dict_get company_profile ''category'' (PStr ''N/A'')),
          Lit ''\<newline>- Description: '', Fmt (dict_get company_profile ''description'' (PStr ''N/A'')),
          Lit ''\<newline>- Country: '', Fmt (dict_get company_profile ''country'' (PStr ''N/A'')),
          Lit ''\<newline>\<newline>Available Regulators:\<newline>'',
          Lit (join ''\<newline>'' (map (\<lambda>(code, desc). ''- '' @ code @ '': '' @ desc) regulators)),
          Lit regulator_instructions])"

definition regulator_request :: "piece list \<Rightarrow> request" where
  "regulator_request prompt =
     \<lparr>system_content =
        ''You are a Nigerian regulatory compliance expert. Respond only with comma-separated regulator codes.'',
      user_content = prompt, temperature_tenths = 3, max_tokens = 100\<rparr>"

definition parse_regulator_reply :: "string option \<Rightarrow> exn + string list" where
  "parse_regulator_reply content =
     (case content of
        None \<Rightarrow> Inl AttributeError
      | Some text \<Rightarrow>
          (let suggested = strip text;
               regulator_codes = map strip (split_sep CHR '','' suggested);
               valid_codes = filter (\<lambda>code. code \<in> set (map fst regulators)) regulator_codes
           in Inr (if valid_codes \<noteq> [] then valid_codes else [])))"

text \<open>No \<^verbatim>\<open>try\<close> surrounds the call or the parsing here: what they raise leaves the function.\<close>

definition suggest_regulators :: "completion \<Rightarrow> doc \<Rightarrow> (exn + string list) \<times> request list" where
  "suggest_regulators llm company_profile =
     (case regulator_prompt company_profile of
        Inl e \<Rightarrow> (Inl e, [])
      | Inr prompt \<Rightarrow>
          (bind (llm (regulator_request prompt)) parse_regulator_reply,
           [regulator_request prompt]))"

section \<open>The match endpoint\<close>

subsection \<open>Company lookup and profile\<close>

text \<open>
  The query documents sent to the regulation store. \<open>Regex p opts\<close> is
  \<^verbatim>\<open>{"$regex": p, "$options": opts}\<close>.
\<close>

datatype cond = In "pyval list" | Regex string string | Exists bool

datatype mquery = FieldOp string cond | Or "mquery list"

text \<open>
  The collaborators of one request: \<open>find_one_company v\<close> is
  \<^verbatim>\<open>find_one({"_id": v})\<close> on the company collection, \<open>find_regulations q\<close> is
  \<^verbatim>\<open>find(q).to_list(length=None)\<close> on the regulation collection, \<open>complete\<close> is
  the completion service, and \<open>set_iter xs\<close> is \<^verbatim>\<open>list(set(xs))\<close>, whose order
  Python leaves to the hash of the strings.
\<close>

record env =
  find_one_company :: "pyval \<Rightarrow> exn + doc option"
  find_regulations :: "mquery \<Rightarrow> exn + doc list"
  complete :: completion
  set_iter :: "string list \<Rightarrow> string list"

text \<open>The bare \<^verbatim>\<open>except\<close> catches whatever the first attempt raises.\<close>

definition lookup_company :: "env \<Rightarrow> string \<Rightarrow> exn + doc option" where
  "lookup_company env company_id =
     (case bind (object_id company_id) (find_one_company env) of
        Inl e \<Rightarrow> find_one_company env (PStr company_id)
      | Inr found \<Rightarrow> Inr found)"

definition build_profile :: "doc \<Rightarrow> exn + doc" where
  "build_profile ecosystem_data =
     bind (attr_get (dict_get ecosystem_data ''country'' (PDict [])) ''name'' (PStr ''Nigeria''))
       (\<lambda>country.
     Inr [(''name'', dict_get ecosystem_data ''name'' (PStr ''Unknown Company'')),
          (''industry'', dict_get ecosystem_data ''industry'' (PStr [])),
          (''businessCategory'', dict_get ecosystem_data ''businessCategory'' (PStr [])),
          (''businessSubCategory'', dict_get ecosystem_data ''businessSubCategory'' (PStr [])),
          (''services'', dict_get ecosystem_data ''services'' (PList [])),
          (''description'', dict_get ecosystem_data ''description'' (PStr [])),
          (''country'', country)])"

subsection \<open>Keywords and query\<close>

text \<open>\<^verbatim>\<open>v.lower()\<close>: only a string has the method.\<close>

definition str_lower :: "pyval \<Rightarrow> exn + string" where
  "str_lower v = (case v of PStr s \<Rightarrow> Inr (lower s) | _ \<Rightarrow> Inl AttributeError)"

definition field_keyword :: "doc \<Rightarrow> string \<Rightarrow> exn + string list" where
  "field_keyword company_profile k =
     (if truthy (dict_get company_profile k PNone)
      then bind (str_lower (dict_get company_profile k PNone)) (\<lambda>s. Inr [s])
      else Inr [])"

fun service_keywords :: "pyval list \<Rightarrow> exn + string list" where
  "service_keywords [] = Inr []"
| "service_keywords (service # rest) =
     bind (str_lower service) (\<lambda>s.
     bind (service_keywords rest) (\<lambda>kws. Inr (split_ws s @ kws)))"

definition search_keywords :: "(string list \<Rightarrow> string list) \<Rightarrow> doc \<Rightarrow> exn + string list" where
  "search_keywords to_list company_profile =
     bind (field_keyword company_profile ''industry'') (\<lambda>industry.
     bind (field_keyword company_profile ''businessCategory'') (\<lambda>category.
     bind (iter_items (dict_get company_profile ''services'' (PList []))) (\<lambda>services.
     bind (service_keywords services) (\<lambda>service_kws.
     Inr (to_list (filter (\<lambda>kw. length kw > 3) (industry @ category @ service_kws)))))))"

definition mongo_query :: "string list \<Rightarrow> string list \<Rightarrow> mquery" where
  "mongo_query suggested_regulators keywords =
     Or [FieldOp ''regulator.code'' (In (map PStr suggested_regulators)),
         FieldOp ''tags'' (In (map PStr keywords)),
         (if keywords \<noteq> []
          then FieldOp ''affected_entities'' (Regex (join ''|'' (take 5 keywords)) ''i'')
          else FieldOp ''affected_entities'' (Exists True))]"

text \<open>
  What the store does with \<^verbatim>\<open>{field: {"$in": values}}\<close> on a top-level field, under
  its default binary comparison of strings: the field's value is one of the values, or it
  is an array and one of its elements is; a missing field is matched by a null among the
  values.
\<close>

definition in_matches :: "doc \<Rightarrow> string \<Rightarrow> pyval list \<Rightarrow> bool" where
  "in_matches d field vals =
     (case map_of d field of
        None \<Rightarrow> PNone \<in> set vals
      | Some (PList xs) \<Rightarrow> PList xs \<in> set vals \<or> list_ex (\<lambda>x. x \<in> set vals) xs
      | Some v \<Rightarrow> v \<in> set vals)"

subsection \<open>match_circulars_for_company\<close>

record match_result =
  company_name :: string
  total_relevant_circulars :: nat
  circulars :: pyval

datatype http_response =
    Ok200 match_result
  | NotFound404 string
  | ServerError500 exn

text \<open>
  The response model wants a string for \<^verbatim>\<open>company_name\<close>; any other value fails
  its validation.
\<close>

definition match_response :: "doc \<Rightarrow> doc list \<Rightarrow> http_response" where
  "match_response company_profile relevant =
     (case dict_get company_profile ''name'' PNone of
        PStr name \<Rightarrow>
          Ok200 \<lparr>company_name = name,
                 total_relevant_circulars = length relevant,
                 circulars = serialize_doc (PList (map PDict relevant))\<rparr>
      | _ \<Rightarrow> ServerError500 ValidationError)"

text \<open>
  The stages after the company was found, in the order of the handler: profile, advisor,
  keywords, query, classifier, response. No stage is retried. An exception that leaves a
  stage leaves the handler, and the framework answers 500.
\<close>

definition match_pipeline :: "env \<Rightarrow> doc \<Rightarrow> http_response \<times> request list" where
  "match_pipeline env ecosystem_data =
     (case build_profile ecosystem_data of
        Inl e \<Rightarrow> (ServerError500 e, [])
      | Inr profile0 \<Rightarrow>
     (case suggest_regulators (complete env) profile0 of
        (Inl e, calls1) \<Rightarrow> (ServerError500 e, calls1)
      | (Inr suggested, calls1) \<Rightarrow>
     (let company_profile =
            dict_set profile0 ''suggested_regulators'' (PList (map PStr suggested)) in
     (case search_keywords (set_iter env) company_profile of
        Inl e \<Rightarrow> (ServerError500 e, calls1)
      | Inr keywords \<Rightarrow>
     (case find_regulations env (mongo_query suggested keywords) of
        Inl e \<Rightarrow> (ServerError500 e, calls1)
      | Inr candidates \<Rightarrow>
     (case (if length candidates > 0
            then ai_filter_circulars (complete env) company_profile candidates
            else (Inr [], [])) of
        (Inl e, calls2) \<Rightarrow> (ServerError500 e, calls1 @ calls2)
      | (Inr relevant, calls2) \<Rightarrow>
          (match_response company_profile relevant, calls1 @ calls2)))))))"

definition match_circulars_for_company :: "env \<Rightarrow> string \<Rightarrow> http_response \<times> request list" where
  "match_circulars_for_company env company_id =
     (case lookup_company env company_id of
        Inl e \<Rightarrow> (ServerError500 e, [])
      | Inr None \<Rightarrow> (NotFound404 ''Company not found in ecosystem database'', [])
      | Inr (Some ecosystem_data) \<Rightarrow>
          (if ecosystem_data = []
           then (NotFound404 ''Company not found in ecosystem database'', [])
           else match_pipeline env ecosystem_data))"

text \<open>A value that holds no ObjectId at any depth.\<close>

fun object_id_free :: "pyval \<Rightarrow> bool" where
  "object_id_free (PObjectId h) = False"
| "object_id_free (PList items) = list_all object_id_free items"
| "object_id_free (PDict kvs) = list_all (\<lambda>kv. object_id_free (snd kv)) kvs"
| "object_id_free v = True"

section \<open>The classifier as the specification words it\<close>

text \<open>
  The specification's reading of the reply, kept apart from the code's: a token counts
  when \<^verbatim>\<open>int\<close> accepts it.
\<close>

fun integer_tokens :: "string list \<Rightarrow> int list" where
  "integer_tokens [] = []"
| "integer_tokens (t # ts) =
     (case py_int t of Inl e \<Rightarrow> integer_tokens ts | Inr n \<Rightarrow> n # integer_tokens ts)"

definition claimed_selection :: "doc list \<Rightarrow> string \<Rightarrow> doc list" where
  "claimed_selection cands reply =
     (if lower (strip reply) = ''none'' then []
      else pick_circulars cands
             (map (\<lambda>n. n - 1) (integer_tokens (split_sep CHR '','' (strip reply)))))"

text \<open>The tokens of a reply that the code keeps: those that pass \<^verbatim>\<open>isdigit\<close> once stripped.\<close>

definition digit_tokens :: "string \<Rightarrow> string list" where
  "digit_tokens reply = filter isdigit (map strip (split_sep CHR '','' (strip reply)))"

text \<open>A token of decimal digits that \<^verbatim>\<open>int\<close> converts.\<close>

definition decimal_token :: "string \<Rightarrow> bool" where
  "decimal_token t = (list_all decimal_char t \<and> length t \<le> int_max_str_digits)"

section \<open>Concrete inputs\<close>

definition profile_ex :: doc where
  "profile_ex = [(''name'', PStr ''Acme''), (''industry'', PStr ''Banking''),
                 (''services'', PList [PStr ''Retail lending''])]"

definition circular_a :: doc where
  "circular_a = [(''_id'', PObjectId ''65a1f0c2e4b0a1b2c3d4e5f6''), (''title'', PStr ''A''),
                 (''tags'', PList [PStr ''banking''])]"

definition circular_b :: doc where
  "circular_b = [(''title'', PStr ''B'')]"

definition company_ex :: doc where
  "company_ex = [(''_id'', PStr ''acme''), (''name'', PStr ''Acme''),
                 (''industry'', PStr ''Banking''),
                 (''services'', PList [PStr ''Retail lending''])]"

definition llm_down :: completion where
  "llm_down req = Inl (UpstreamError ''connection refused'')"

text \<open>A stub that answers the advisor's request with one text and the classifier's with another.\<close>

definition llm_stub :: "string \<Rightarrow> string \<Rightarrow> completion" where
  "llm_stub advisor_reply filter_reply req =
     Inr (Some (if max_tokens req = 100 then advisor_reply else filter_reply))"

definition env_stub :: "(pyval \<Rightarrow> doc option) \<Rightarrow> doc list \<Rightarrow> completion \<Rightarrow> env" where
  "env_stub companies regulations llm =
     \<lparr>find_one_company = (\<lambda>v. Inr (companies v)),
      find_regulations = (\<lambda>q. Inr regulations),
      complete = llm,
      set_iter = remdups\<rparr>"

definition acme_only :: "pyval \<Rightarrow> doc option" where
  "acme_only v = (if v = PStr ''acme'' then Some company_ex else None)"

text \<open>The profile that the endpoint builds from \<open>company_ex\<close>.\<close>

definition profile_of_company_ex :: doc where
  "profile_of_company_ex =
     [(''name'', PStr ''Acme''), (''industry'', PStr ''Banking''),
      (''businessCategory'', PStr []), (''businessSubCategory'', PStr []),
      (''services'', PList [PStr ''Retail lending'']), (''description'', PStr []),
      (''country'', PStr ''Nigeria'')]"

text \<open>A company collection keyed by the identifier's string.\<close>

definition string_keyed :: "pyval \<Rightarrow> doc option" where
  "string_keyed v =
     (if v = PStr ''65a1f0c2e4b0a1b2c3d4e5f6''
      then Some [(''_id'', PStr ''65a1f0c2e4b0a1b2c3d4e5f6''), (''name'', PStr ''Acme'')]
      else None)"

text \<open>A company collection keyed by a string of 22 digits and two spaces.\<close>

definition spaced_keyed :: "pyval \<Rightarrow> doc option" where
  "spaced_keyed v =
     (if v = PStr ''65a1f0c2e4b0a1b2c3d4e5  ''
      then Some [(''_id'', PStr ''65a1f0c2e4b0a1b2c3d4e5  ''), (''name'', PStr ''Acme'')]
      else None)"

text \<open>A regulation whose only tag is capitalised.\<close>

definition circular_upper :: doc where
  "circular_upper = [(''title'', PStr ''C''), (''tags'', PList [PStr ''Banking''])]"

section \<open>Auxiliary facts\<close>

subsection \<open>Errors as values\<close>

lemma bind_Inl [simp]: "bind (Inl e) f = Inl e"
  by (simp add: bind_def)

lemma bind_Inr [simp]: "bind (Inr x) f = f x"
  by (simp add: bind_def)

lemma bind_eq_Inr: "bind m f = Inr y \<longleftrightarrow> (\<exists>x. m = Inr x \<and> f x = Inr y)"
  by (cases m) simp_all

subsection \<open>Strings\<close>

lemma of_char_eq_nat: "(of_char c :: nat) = n \<Longrightarrow> c = char_of n"
  by (metis char_of_char)

lemma upper_char_letter:
  assumes "upper_char c @ rest = x # rest'" and "x = 78 \<or> x = 79 \<or> x = 69"
  shows "((of_char c :: nat) = x \<or> (of_char c :: nat) = x + 32) \<and> rest = rest'"
  using assms by (auto simp add: upper_char_def Let_def split: if_splits)

lemma upper_empty: "upper s = [] \<longleftrightarrow> s = []"
  by (cases s) (auto simp add: upper_def upper_char_def Let_def)

lemma upper_Cons: "upper (c # s) = upper_char c @ upper s"
  by (simp add: upper_def)

lemma lower_char_letter:
  assumes "(of_char c :: nat) = x \<or> (of_char c :: nat) = x + 32" and "x = 78 \<or> x = 79 \<or> x = 69"
  shows "lower_char c = char_of (x + 32)"
  using assms by (auto simp add: lower_char_def Let_def dest: of_char_eq_nat)

lemma upper_NONE_imp:
  assumes "upper s = code_points ''NONE''"
  shows "lower s = ''none''"
proof -
  from assms have u: "upper s = [78, 79, 78, 69]" by (simp add: code_points_def)
  then obtain c1 s1 where s: "s = c1 # s1" by (cases s) (auto simp add: upper_def)
  with u have 1: "((of_char c1 :: nat) = 78 \<or> (of_char c1 :: nat) = 78 + 32) \<and> upper s1 = [79, 78, 69]"
    using upper_char_letter [of c1 "upper s1" 78 "[79, 78, 69]"] by (simp add: upper_Cons)
  then obtain c2 s2 where s1: "s1 = c2 # s2" by (cases s1) (auto simp add: upper_def)
  with 1 have 2: "((of_char c2 :: nat) = 79 \<or> (of_char c2 :: nat) = 79 + 32) \<and> upper s2 = [78, 69]"
    using upper_char_letter [of c2 "upper s2" 79 "[78, 69]"] by (simp add: upper_Cons)
  then obtain c3 s3 where s2: "s2 = c3 # s3" by (cases s2) (auto simp add: upper_def)
  with 2 have 3: "((of_char c3 :: nat) = 78 \<or> (of_char c3 :: nat) = 78 + 32) \<and> upper s3 = [69]"
    using upper_char_letter [of c3 "upper s3" 78 "[69]"] by (simp add: upper_Cons)
  then obtain c4 s4 where s3: "s3 = c4 # s4" by (cases s3) (auto simp add: upper_def)
  with 3 have 4: "((of_char c4 :: nat) = 69 \<or> (of_char c4 :: nat) = 69 + 32) \<and> upper s4 = []"
    using upper_char_letter [of c4 "upper s4" 69 "[]"] by (simp add: upper_Cons)
  then have s4: "s4 = []" by (simp add: upper_empty)
  have "lower_char c1 = char_of (78 + 32 :: nat)"
    using lower_char_letter [of c1 78] 1 by simp
  moreover have "lower_char c2 = char_of (79 + 32 :: nat)"
    using lower_char_letter [of c2 79] 2 by simp
  moreover have "lower_char c3 = char_of (78 + 32 :: nat)"
    using lower_char_letter [of c3 78] 3 by simp
  moreover have "lower_char c4 = char_of (69 + 32 :: nat)"
    using lower_char_letter [of c4 69] 4 by simp
  ultimately show ?thesis
    by (simp add: s s1 s2 s3 s4 lower_def char_of_eq_iff)
qed

lemma lower_char_eq_letter:
  assumes "lower_char c = char_of (x + 32)" and "x = 78 \<or> x = 79 \<or> x = 69"
  shows "upper_char c = [x]"
proof -
  let ?n = "of_char c :: nat"
  have lt: "?n < 256" by simp
  show ?thesis
  proof (cases "(0x41 \<le> ?n \<and> ?n \<le> 0x5A) \<or> (0xC0 \<le> ?n \<and> ?n \<le> 0xDE \<and> ?n \<noteq> 0xD7)")
    case True
    with assms(1) have "char_of (?n + 32) = (char_of (x + 32) :: char)"
      by (simp add: lower_char_def Let_def)
    then have "(?n + 32) mod 256 = (x + 32) mod 256" by simp
    with True assms(2) have "?n = x" by auto
    with assms(2) show ?thesis by (auto simp add: upper_char_def Let_def)
  next
    case False
    with assms(1) have "c = char_of (x + 32)" by (simp add: lower_char_def Let_def)
    then have "?n = (x + 32) mod 256" by simp
    with assms(2) show ?thesis by (auto simp add: upper_char_def Let_def)
  qed
qed

lemma lower_none_imp:
  assumes "lower s = ''none''"
  shows "upper s = code_points ''NONE''"
proof -
  from assms obtain c1 c2 c3 c4 where s: "s = [c1, c2, c3, c4]"
    and l: "lower_char c1 = CHR ''n''" "lower_char c2 = CHR ''o''"
           "lower_char c3 = CHR ''n''" "lower_char c4 = CHR ''e''"
    by (auto simp add: lower_def)
  have e: "char_of (110 :: nat) = CHR ''n''" "char_of (111 :: nat) = CHR ''o''"
     "char_of (101 :: nat) = CHR ''e''"
    by (simp_all add: char_of_eq_iff)
  have "upper_char c1 = [78]"
    by (rule lower_char_eq_letter) (simp_all add: l e)
  moreover have "upper_char c2 = [79]"
    by (rule lower_char_eq_letter) (simp_all add: l e)
  moreover have "upper_char c3 = [78]"
    by (rule lower_char_eq_letter) (simp_all add: l e)
  moreover have "upper_char c4 = [69]"
    by (rule lower_char_eq_letter) (simp_all add: l e)
  ultimately show ?thesis by (simp add: s upper_def code_points_def)
qed

lemma upper_NONE_iff: "upper s = code_points ''NONE'' \<longleftrightarrow> lower s = ''none''"
  using upper_NONE_imp lower_none_imp by blast

lemma lower_char_idem: "lower_char (lower_char c) = lower_char c"
  by (auto simp add: lower_char_def Let_def)

lemma lower_idem: "lower (lower s) = lower s"
  by (simp add: lower_def lower_char_idem)

lemma lower_length: "length (lower s) = length s"
  by (simp add: lower_def)

lemma digit_char_not_space: "digit_char c \<Longrightarrow> \<not> isspace c \<and> \<not> int_space c"
  by (auto simp add: digit_char_def decimal_char_def isspace_def int_space_def)

lemma digit_char_not_sign:
  "digit_char c \<Longrightarrow> c \<noteq> CHR ''-'' \<and> c \<noteq> CHR ''+'' \<and> c \<noteq> CHR ''_''"
  by (auto simp add: digit_char_def decimal_char_def)

lemma trim_unchanged:
  assumes "s \<noteq> []" and "\<not> P (hd s)" and "\<not> P (last s)"
  shows "rev (dropWhile P (rev (dropWhile P s))) = s"
proof -
  from assms have 1: "dropWhile P s = s"
    by (cases s) simp_all
  from assms have "dropWhile P (rev s) = rev s"
    by (cases "rev s") (simp_all add: last_rev [symmetric] hd_rev)
  with 1 show ?thesis by simp
qed

lemma isdigit_strip: "isdigit t \<Longrightarrow> strip t = t"
proof -
  assume d: "isdigit t"
  then have "t \<noteq> []" "digit_char (hd t)" "digit_char (last t)"
    by (auto simp add: isdigit_def list_all_iff)
  then show ?thesis
    by (simp add: strip_def trim_unchanged digit_char_not_space)
qed

lemma digits_ok_digits:
  "list_all digit_char t \<Longrightarrow> digits_ok b t = (list_all decimal_char t \<and> (b \<or> t \<noteq> []))"
proof (induction t arbitrary: b)
  case Nil
  then show ?case by simp
next
  case (Cons c cs)
  then show ?case
    using digit_char_not_sign [of c] by auto
qed

lemma digit_chars_no_underscore:
  "list_all digit_char t \<Longrightarrow> filter (\<lambda>c. c \<noteq> CHR ''_'') t = t"
  using digit_char_not_sign by (induction t) auto

lemma py_int_isdigit:
  assumes "isdigit t"
  shows "py_int t = (if decimal_token t then Inr (digits_value t) else Inl ValueError)"
proof -
  from assms have ne: "t \<noteq> []" and all: "list_all digit_char t"
    by (simp_all add: isdigit_def)
  then have ends: "digit_char (hd t)" "digit_char (last t)"
    by (auto simp add: list_all_iff)
  have trim: "rev (dropWhile int_space (rev (dropWhile int_space t))) = t"
    using ne ends by (simp add: trim_unchanged digit_char_not_space)
  have "digits_ok False t = list_all decimal_char t"
    using digits_ok_digits [OF all, of False] ne by simp
  then show ?thesis
    using digit_char_not_sign [OF ends(1)] ne
    by (simp add: py_int_def trim Let_def decimal_token_def digit_chars_no_underscore [OF all])
qed

lemma split_ws_from_concat:
  "concat (split_ws_from cur s) = cur @ filter (\<lambda>c. \<not> isspace c) s"
  by (induction cur s rule: split_ws_from.induct) simp_all

lemma split_ws_token_chars: "t \<in> set (split_ws s) \<Longrightarrow> set t \<subseteq> set s"
proof -
  assume "t \<in> set (split_ws s)"
  then have "set t \<subseteq> set (concat (split_ws s))" by auto
  then show ?thesis by (auto simp add: split_ws_def split_ws_from_concat)
qed

lemma split_ws_from_tokens:
  "t \<in> set (split_ws_from cur s) \<Longrightarrow> \<not> list_ex isspace cur
     \<Longrightarrow> t \<noteq> [] \<and> \<not> list_ex isspace t"
  by (induction cur s rule: split_ws_from.induct) (auto split: if_splits)

lemma split_ws_lower_token: "t \<in> set (split_ws (lower s)) \<Longrightarrow> lower t = t"
proof -
  assume "t \<in> set (split_ws (lower s))"
  then have "set t \<subseteq> set (lower s)" by (rule split_ws_token_chars)
  then have "\<forall>c \<in> set t. lower_char c = c"
    by (auto simp add: lower_def lower_char_idem)
  then show ?thesis by (simp add: lower_def map_idI)
qed

lemma hex_char_not_space: "hex_char c \<Longrightarrow> \<not> hex_space c"
  by (auto simp add: hex_char_def hex_space_def)

lemma fromhex_digits:
  "list_all hex_char s \<Longrightarrow> even (length s) \<Longrightarrow> fromhex s = Inr s"
  by (induction s rule: fromhex.induct) (auto simp add: hex_char_not_space)

lemma fromhex_reads:
  "fromhex s = Inr digits \<Longrightarrow>
     digits = filter (\<lambda>c. \<not> hex_space c) s \<and> list_all (\<lambda>c. hex_char c \<or> hex_space c) s"
proof (induction s arbitrary: digits rule: fromhex.induct)
  case 1
  then show ?case by simp
next
  case (2 c)
  then show ?case by (simp split: if_splits)
next
  case (3 c d ds)
  then show ?case
    by (auto simp add: bind_eq_Inr hex_char_not_space split: if_splits)
qed

lemma object_id_hex:
  "object_id ''65a1f0c2e4b0a1b2c3d4e5f6'' = Inr (PObjectId ''65a1f0c2e4b0a1b2c3d4e5f6'')"
  by (simp add: object_id_def hex_char_def hex_space_def lower_def lower_char_def)

lemma object_id_spaced:
  "object_id ''65a1f0c2e4b0a1b2c3d4e5  '' = Inr (PObjectId ''65a1f0c2e4b0a1b2c3d4e5'')"
  by (simp add: object_id_def hex_char_def hex_space_def lower_def lower_char_def)

subsection \<open>The classifier's steps\<close>

lemma relevant_indices_tokens:
  "relevant_indices toks =
     (if list_all decimal_token (filter isdigit (map strip toks))
      then Inr (map (\<lambda>t. digits_value t - 1) (filter isdigit (map strip toks)))
      else Inl ValueError)"
  by (induction toks) (simp_all add: py_int_isdigit)

lemma parse_filter_reply_text:
  "parse_filter_reply cands (Some reply) =
     (if lower (strip reply) = ''none'' then Inr []
      else if list_all decimal_token (digit_tokens reply)
      then Inr (pick_circulars cands (map (\<lambda>t. digits_value t - 1) (digit_tokens reply)))
      else Inl ValueError)"
  by (simp add: parse_filter_reply_def Let_def upper_NONE_iff relevant_indices_tokens
      digit_tokens_def)

lemma pick_circulars_subset: "set (pick_circulars cands idxs) \<subseteq> set cands"
  by (auto simp add: pick_circulars_def)

lemma parse_filter_reply_subset:
  "parse_filter_reply cands content = Inr rel \<Longrightarrow> set rel \<subseteq> set cands"
  using pick_circulars_subset [of cands]
  by (auto simp add: parse_filter_reply_def Let_def bind_eq_Inr split: option.splits if_splits)

lemma ai_filter_text:
  assumes "cands \<noteq> []" and "filter_prompt cp cands = Inr p"
    and "llm (filter_request p) = Inr (Some reply)"
  shows "ai_filter_circulars llm cp cands
         = (case parse_filter_reply cands (Some reply) of
              Inl e \<Rightarrow> Inr cands | Inr rel \<Rightarrow> Inr rel,
            [filter_request p])"
  using assms by (simp add: ai_filter_circulars_def split: sum.splits)

lemma ai_filter_prompt_error:
  "cands \<noteq> [] \<Longrightarrow> filter_prompt cp cands = Inl e
   \<Longrightarrow> ai_filter_circulars llm cp cands = (Inl e, [])"
  by (simp add: ai_filter_circulars_def)

lemma ai_filter_subset:
  assumes "ai_filter_circulars llm cp cands = (Inr rel, calls)"
  shows "set rel \<subseteq> set cands"
proof (cases "cands = []")
  case True
  with assms show ?thesis by (simp add: ai_filter_circulars_def)
next
  case False
  with assms obtain prompt where p: "filter_prompt cp cands = Inr prompt"
    by (auto simp add: ai_filter_circulars_def split: sum.splits)
  show ?thesis
  proof (cases "bind (llm (filter_request prompt)) (parse_filter_reply cands)")
    case (Inl e)
    with assms False p show ?thesis by (simp add: ai_filter_circulars_def)
  next
    case (Inr relevant)
    with assms False p have "relevant = rel" by (simp add: ai_filter_circulars_def)
    with Inr show ?thesis by (auto simp add: bind_eq_Inr dest: parse_filter_reply_subset)
  qed
qed

subsection \<open>The advisor's steps\<close>

lemma regulator_codes:
  "map fst regulators = [''CBN'', ''NDPC'', ''NDIC'', ''SEC'', ''FCCPC'', ''EFCC'', ''NAICOM'']"
  by (simp add: regulators_def)

lemma suggest_regulators_text:
  assumes "regulator_prompt cp = Inr p" and "llm (regulator_request p) = Inr (Some reply)"
  shows "suggest_regulators llm cp
         = (Inr (filter (\<lambda>code. code \<in> set (map fst regulators))
                   (map strip (split_sep CHR '','' (strip reply)))),
            [regulator_request p])"
  using assms by (simp add: suggest_regulators_def parse_regulator_reply_def Let_def)

lemma suggest_regulators_raises:
  "regulator_prompt cp = Inr p \<Longrightarrow> llm (regulator_request p) = Inl e
   \<Longrightarrow> suggest_regulators llm cp = (Inl e, [regulator_request p])"
  by (simp add: suggest_regulators_def)

lemma suggest_regulators_calls:
  "suggest_regulators llm cp = (Inr codes, calls)
   \<Longrightarrow> \<exists>p. regulator_prompt cp = Inr p \<and> calls = [regulator_request p]"
  by (auto simp add: suggest_regulators_def split: sum.splits)

lemma regulator_prompt_services:
  "join_val '', '' (dict_get cp ''services'' (PList [])) = Inr s \<Longrightarrow> \<exists>p. regulator_prompt cp = Inr p"
  by (simp add: regulator_prompt_def)

subsection \<open>Keywords and the tag alternative\<close>

lemma field_keyword_str:
  "dict_get cp k PNone = PStr s \<Longrightarrow>
   field_keyword cp k = Inr (if s = [] then [] else [lower s])"
  by (simp add: field_keyword_def str_lower_def)

lemma service_keywords_strs:
  "service_keywords (map PStr services) = Inr (concat (map (\<lambda>s. split_ws (lower s)) services))"
  by (induction services) (simp_all add: str_lower_def)

lemma search_keywords_strs:
  assumes "dict_get cp ''industry'' PNone = PStr industry"
    and "dict_get cp ''businessCategory'' PNone = PStr category"
    and "dict_get cp ''services'' (PList []) = PList (map PStr services)"
  shows "search_keywords to_list cp =
     Inr (to_list (filter (\<lambda>kw. 3 < length kw)
            ((if industry = [] then [] else [lower industry])
             @ (if category = [] then [] else [lower category])
             @ concat (map (\<lambda>s. split_ws (lower s)) services))))"
  using assms
  by (simp add: search_keywords_def field_keyword_str service_keywords_strs iter_items_def)

lemma field_keyword_lower:
  "field_keyword cp k = Inr ks \<Longrightarrow> kw \<in> set ks \<Longrightarrow> lower kw = kw"
  by (auto simp add: field_keyword_def str_lower_def bind_eq_Inr lower_idem
      split: if_splits pyval.splits)

lemma service_keywords_lower:
  "service_keywords vs = Inr ks \<Longrightarrow> kw \<in> set ks \<Longrightarrow> lower kw = kw"
proof (induction vs arbitrary: ks)
  case Nil
  then show ?case by simp
next
  case (Cons v vs)
  then show ?case
    by (auto simp add: bind_eq_Inr str_lower_def split_ws_lower_token split: pyval.splits)
qed

lemma search_keywords_lower:
  assumes "search_keywords to_list cp = Inr kws"
    and "\<forall>xs. set (to_list xs) = set xs \<and> distinct (to_list xs)"
    and "kw \<in> set kws"
  shows "lower kw = kw"
proof -
  from assms(1) obtain industry category services service_kws
    where f: "field_keyword cp ''industry'' = Inr industry"
      "field_keyword cp ''businessCategory'' = Inr category"
      "service_keywords services = Inr service_kws"
      "kws = to_list (filter (\<lambda>kw. length kw > 3) (industry @ category @ service_kws))"
    by (auto simp add: search_keywords_def bind_eq_Inr)
  with assms(2,3) have "kw \<in> set industry \<or> kw \<in> set category \<or> kw \<in> set service_kws"
    by auto
  with f show ?thesis
    using field_keyword_lower service_keywords_lower by blast
qed

lemma in_matches_strings:
  "in_matches d field (map PStr kws) \<longleftrightarrow>
     (\<exists>kw \<in> set kws. map_of d field = Some (PStr kw)
        \<or> (\<exists>tags. map_of d field = Some (PList tags) \<and> PStr kw \<in> set tags))"
  by (auto simp add: in_matches_def list_ex_iff split: option.splits pyval.splits)

subsection \<open>The stages of the endpoint\<close>

lemma serialize_doc_unchanged: "object_id_free v \<Longrightarrow> serialize_doc v = v"
proof (induction v rule: serialize_doc.induct)
  case (2 items)
  then show ?case by (simp add: list_all_iff map_idI)
next
  case (3 kvs)
  have "map (map_prod id serialize_doc) kvs = kvs"
  proof (rule map_idI)
    fix kv assume kv: "kv \<in> set kvs"
    obtain k v where [simp]: "kv = (k, v)" by (cases kv)
    from 3 kv show "map_prod id serialize_doc kv = kv"
      by (auto simp add: list_all_iff)
  qed
  then show ?case by simp
qed simp_all

lemma match_response_not_404: "match_response cp rel \<noteq> NotFound404 msg"
  by (simp add: match_response_def split: pyval.splits)

lemma match_pipeline_not_404: "fst (match_pipeline env data) \<noteq> NotFound404 msg"
  by (simp add: match_pipeline_def Let_def match_response_not_404 split: sum.splits prod.splits)

lemma match_response_Ok200:
  "match_response cp rel = Ok200 r \<Longrightarrow>
     dict_get cp ''name'' PNone = PStr (company_name r)
     \<and> total_relevant_circulars r = length rel
     \<and> circulars r = PList (map (\<lambda>d. serialize_doc (PDict d)) rel)"
  by (auto simp add: match_response_def o_def split: pyval.splits)

lemma build_profile_name:
  "build_profile data = Inr p \<Longrightarrow>
     dict_get (dict_set p ''suggested_regulators'' v) ''name'' PNone
       = dict_get data ''name'' (PStr ''Unknown Company'')"
  by (auto simp add: build_profile_def bind_eq_Inr dict_set_def dict_get_def)

lemma match_pipeline_Ok200:
  assumes "fst (match_pipeline env data) = Ok200 r"
  shows "\<exists>profile0 suggested calls1 keywords candidates relevant.
           build_profile data = Inr profile0
         \<and> suggest_regulators (complete env) profile0 = (Inr suggested, calls1)
         \<and> search_keywords (set_iter env)
              (dict_set profile0 ''suggested_regulators'' (PList (map PStr suggested)))
             = Inr keywords
         \<and> find_regulations env (mongo_query suggested keywords) = Inr candidates
         \<and> set relevant \<subseteq> set candidates
         \<and> match_response
              (dict_set profile0 ''suggested_regulators'' (PList (map PStr suggested))) relevant
             = Ok200 r"
proof -
  obtain profile0 where b: "build_profile data = Inr profile0"
    using assms by (cases "build_profile data") (simp_all add: match_pipeline_def)
  obtain adv calls1 where a: "suggest_regulators (complete env) profile0 = (adv, calls1)"
    by (cases "suggest_regulators (complete env) profile0")
  obtain suggested where s: "adv = Inr suggested"
    using assms b a by (cases adv) (simp_all add: match_pipeline_def)
  let ?cp = "dict_set profile0 ''suggested_regulators'' (PList (map PStr suggested))"
  obtain kws where k: "search_keywords (set_iter env) ?cp = Inr kws"
    using assms b a s
    by (cases "search_keywords (set_iter env) ?cp") (simp_all add: match_pipeline_def)
  obtain candidates where c: "find_regulations env (mongo_query suggested kws) = Inr candidates"
    using assms b a s k
    by (cases "find_regulations env (mongo_query suggested kws)")
       (simp_all add: match_pipeline_def)
  let ?stage2 = "if length candidates > 0
                 then ai_filter_circulars (complete env) ?cp candidates else (Inr [], [])"
  obtain res calls2 where f: "?stage2 = (res, calls2)"
    by (cases ?stage2)
  have run: "fst (match_pipeline env data)
       = (case res of Inl e \<Rightarrow> ServerError500 e | Inr relevant \<Rightarrow> match_response ?cp relevant)"
    using b a s k c f by (simp add: match_pipeline_def split: sum.splits)
  then obtain relevant where r: "res = Inr relevant" "match_response ?cp relevant = Ok200 r"
    using assms by (cases res) simp_all
  have "set relevant \<subseteq> set candidates"
  proof (cases "length candidates > 0")
    case True
    with f r have "ai_filter_circulars (complete env) ?cp candidates = (Inr relevant, calls2)"
      by simp
    then show ?thesis by (rule ai_filter_subset)
  next
    case False
    with f r show ?thesis by simp
  qed
  with b a s k c r show ?thesis by blast
qed

lemma match_Ok200_lookup:
  assumes "fst (match_circulars_for_company env company_id) = Ok200 r"
  shows "\<exists>data. lookup_company env company_id = Inr (Some data) \<and> data \<noteq> []
           \<and> fst (match_pipeline env data) = Ok200 r"
  using assms
  by (auto simp add: match_circulars_for_company_def split: sum.splits option.splits if_splits)

lemma match_pipeline_run:
  assumes "build_profile data = Inr profile0"
    and "suggest_regulators (complete env) profile0 = (Inr suggested, calls1)"
    and "search_keywords (set_iter env)
           (dict_set profile0 ''suggested_regulators'' (PList (map PStr suggested))) = Inr kws"
    and "find_regulations env (mongo_query suggested kws) = Inr candidates"
    and "candidates \<noteq> []"
    and "ai_filter_circulars (complete env)
           (dict_set profile0 ''suggested_regulators'' (PList (map PStr suggested))) candidates
         = (Inr relevant, calls2)"
  shows "match_pipeline env data
         = (match_response
              (dict_set profile0 ''suggested_regulators'' (PList (map PStr suggested))) relevant,
            calls1 @ calls2)"
  using assms by (simp add: match_pipeline_def)

lemma match_pipeline_advisor_raises:
  "build_profile data = Inr profile0 \<Longrightarrow> regulator_prompt profile0 = Inr p
   \<Longrightarrow> complete env (regulator_request p) = Inl e
   \<Longrightarrow> match_pipeline env data = (ServerError500 e, [regulator_request p])"
  by (simp add: match_pipeline_def suggest_regulators_raises)

subsection \<open>The concrete inputs\<close>

lemma filter_prompt_ex: "\<exists>p. filter_prompt profile_ex [circular_a, circular_b] = Inr p"
  by (simp add: filter_prompt_def circular_block_def profile_ex_def circular_a_def
      circular_b_def attr_get_def dict_get_def slice_to_def join_val_def iter_items_def)

lemma llm_stub_advisor: "llm_stub a f (regulator_request p) = Inr (Some a)"
  by (simp add: llm_stub_def regulator_request_def)

lemma llm_stub_filter: "llm_stub a f (filter_request p) = Inr (Some f)"
  by (simp add: llm_stub_def filter_request_def)

lemma build_profile_company_ex: "build_profile company_ex = Inr profile_of_company_ex"
  by (simp add: build_profile_def company_ex_def profile_of_company_ex_def attr_get_def dict_get_def)

lemma regulator_prompt_company_ex: "\<exists>p. regulator_prompt profile_of_company_ex = Inr p"
  by (rule regulator_prompt_services [where s = "''Retail lending''"])
     (simp add: profile_of_company_ex_def dict_get_def join_val_def iter_items_def)

lemma strip_CBN: "filter (\<lambda>code. code \<in> set (map fst regulators))
                   (map strip (split_sep CHR '','' (strip ''CBN''))) = [''CBN'']"
  by (simp add: regulator_codes strip_def isspace_def)

lemma keywords_company_ex:
  "search_keywords remdups (dict_set profile_of_company_ex ''suggested_regulators'' v)
   = Inr [''banking'', ''retail'', ''lending'']"
  by (simp add: search_keywords_def field_keyword_def profile_of_company_ex_def dict_set_def
      dict_get_def str_lower_def iter_items_def split_ws_def isspace_def
      lower_def lower_char_def char_of_eq_iff)

lemma lookup_acme: "lookup_company (env_stub acme_only regs llm) ''acme'' = Inr (Some company_ex)"
  by (simp add: lookup_company_def object_id_def env_stub_def acme_only_def)

lemma company_ex_nonempty: "company_ex \<noteq> []"
  by (simp add: company_ex_def)

lemma match_acme:
  "match_circulars_for_company (env_stub acme_only regs llm) ''acme''
   = match_pipeline (env_stub acme_only regs llm) company_ex"
  by (simp add: match_circulars_for_company_def lookup_acme company_ex_nonempty)

lemma filter_prompt_company_ex:
  "\<exists>p. filter_prompt (dict_set profile_of_company_ex ''suggested_regulators'' v)
         [circular_a, circular_b] = Inr p"
  by (simp add: filter_prompt_def circular_block_def profile_of_company_ex_def circular_a_def
      circular_b_def attr_get_def dict_get_def dict_set_def slice_to_def join_val_def
      iter_items_def)

lemma parse_reply_1:
  "parse_filter_reply [circular_a, circular_b] (Some ''1'') = Inr [circular_a]"
  by (simp add: parse_filter_reply_def strip_def isspace_def upper_def upper_char_def
      code_points_def isdigit_def digit_char_def decimal_char_def py_int_def int_space_def int_max_str_digits_def digits_value_def
      pick_circulars_def)

lemma serialize_circular_a:
  "serialize_doc (PDict circular_a)
   = PDict [(''_id'', PStr ''65a1f0c2e4b0a1b2c3d4e5f6''), (''title'', PStr ''A''),
            (''tags'', PList [PStr ''banking''])]"
  by (simp add: circular_a_def)

lemma match_acme_ab:
  "fst (match_circulars_for_company
          (env_stub acme_only [circular_a, circular_b] (llm_stub ''CBN'' ''1'')) ''acme'')
   = Ok200 \<lparr>company_name = ''Acme'', total_relevant_circulars = 1,
            circulars = PList [serialize_doc (PDict circular_a)]\<rparr>"
proof -
  let ?env = "env_stub acme_only [circular_a, circular_b] (llm_stub ''CBN'' ''1'')"
  let ?cp = "dict_set profile_of_company_ex ''suggested_regulators'' (PList (map PStr [''CBN'']))"
  obtain p where p: "regulator_prompt profile_of_company_ex = Inr p"
    using regulator_prompt_company_ex by blast
  have adv: "suggest_regulators (complete ?env) profile_of_company_ex
        = (Inr [''CBN''], [regulator_request p])"
    using suggest_regulators_text [OF p, where llm = "complete ?env" and reply = "''CBN''"]
    by (simp add: env_stub_def llm_stub_advisor strip_CBN del: set_map)
  have kws: "search_keywords (set_iter ?env) ?cp = Inr [''banking'', ''retail'', ''lending'']"
    by (simp add: env_stub_def keywords_company_ex)
  have cands: "find_regulations ?env (mongo_query [''CBN''] [''banking'', ''retail'', ''lending''])
        = Inr [circular_a, circular_b]"
    by (simp add: env_stub_def)
  obtain q where q: "filter_prompt ?cp [circular_a, circular_b] = Inr q"
    using filter_prompt_company_ex by blast
  have ne: "[circular_a, circular_b] \<noteq> []" by simp
  have stage2: "ai_filter_circulars (complete ?env) ?cp [circular_a, circular_b]
        = (Inr [circular_a], [filter_request q])"
    using ai_filter_text [OF ne q, where llm = "complete ?env" and reply = "''1''"]
    by (simp add: env_stub_def llm_stub_filter parse_reply_1)
  have "match_pipeline ?env company_ex
        = (match_response ?cp [circular_a], [regulator_request p] @ [filter_request q])"
    by (rule match_pipeline_run [OF build_profile_company_ex adv kws cands ne stage2])
  moreover have "match_response ?cp [circular_a]
        = Ok200 \<lparr>company_name = ''Acme'', total_relevant_circulars = 1,
                 circulars = PList [serialize_doc (PDict circular_a)]\<rparr>"
    by (simp add: match_response_def dict_set_def dict_get_def profile_of_company_ex_def)
  ultimately show ?thesis by (simp add: match_acme)
qed

lemma tokens_2_1_x: "digit_tokens '' 2, 1 ,x, 2, 0, 3'' = [''2'', ''1'', ''2'', ''0'', ''3'']"
  by (simp add: digit_tokens_def strip_def isspace_def isdigit_def digit_char_def decimal_char_def)

lemma tokens_plus_1: "digit_tokens ''+1'' = []"
  by (simp add: digit_tokens_def strip_def isspace_def isdigit_def digit_char_def decimal_char_def)

lemma claimed_plus_1: "claimed_selection [circular_a, circular_b] ''+1'' = [circular_a]"
  by (simp add: claimed_selection_def strip_def isspace_def lower_def lower_char_def
      py_int_def int_space_def int_max_str_digits_def decimal_char_def digits_value_def
      pick_circulars_def)

lemma py_int_plus_1: "py_int ''+1'' = Inr 1"
  by (simp add: py_int_def int_space_def int_max_str_digits_def decimal_char_def digits_value_def)

lemma tokens_none: "lower (strip '' None '') = ''none''"
  by (simp add: strip_def isspace_def lower_def lower_char_def char_of_eq_iff)

lemma superscript_reply_raises:
  "parse_filter_reply cands (Some [CHR 0xB2]) = Inl ValueError"
  by (simp add: parse_filter_reply_def strip_def isspace_def upper_def upper_char_def
      code_points_def isdigit_def digit_char_def py_int_def int_space_def decimal_char_def)

section \<open>Properties\<close>

subsection \<open>The relevance classifier\<close>

text \<open>
  C1. Once the prompt is built and the request is issued for a non-empty candidate list,
  whatever the completion call raises, and whatever the parsing of its reply raises, is
  caught: the function returns the candidate list it was given, unchanged and in order,
  and no exception leaves it. (The prompt is built before the \<^verbatim>\<open>try\<close> block;
  \<open>ai_filter_prompt_error\<close> is what happens when that raises, with no call made.)
\<close>

theorem ai_filter_fails_open:
  assumes "cands \<noteq> []"
    and "filter_prompt company_profile cands = Inr prompt"
    and "llm (filter_request prompt) = Inl e
         \<or> (\<exists>content. llm (filter_request prompt) = Inr content
                \<and> parse_filter_reply cands content = Inl e)"
  shows "ai_filter_circulars llm company_profile cands = (Inr cands, [filter_request prompt])"
  using assms by (auto simp add: ai_filter_circulars_def)

theorem ai_filter_fails_open_witness:
  "fst (ai_filter_circulars llm_down profile_ex [circular_a, circular_b])
     = Inr [circular_a, circular_b]
   \<and> fst (ai_filter_circulars (\<lambda>req. Inr None) profile_ex [circular_a, circular_b])
     = Inr [circular_a, circular_b]"
proof -
  obtain p where p: "filter_prompt profile_ex [circular_a, circular_b] = Inr p"
    using filter_prompt_ex by blast
  have ne: "[circular_a, circular_b] \<noteq> []" by simp
  have down: "llm_down (filter_request p) = Inl (UpstreamError ''connection refused'')
       \<or> (\<exists>content. llm_down (filter_request p) = Inr content
             \<and> parse_filter_reply [circular_a, circular_b] content
                 = Inl (UpstreamError ''connection refused''))"
    by (simp add: llm_down_def)
  have none: "(\<lambda>req. Inr None) (filter_request p) = Inl AttributeError
       \<or> (\<exists>content. (\<lambda>req. Inr None) (filter_request p) = Inr content
             \<and> parse_filter_reply [circular_a, circular_b] content = Inl AttributeError)"
    by (simp add: parse_filter_reply_def)
  show ?thesis
    using ai_filter_fails_open [where llm = llm_down, OF ne p down]
      ai_filter_fails_open [where llm = "\<lambda>req. Inr None", OF ne p none]
    by simp
qed

text \<open>
  C2 (amended). When the completion service answers a non-empty candidate list with a
  text, the classifier returns the empty list if the stripped text is NONE in any
  letter case. Otherwise it splits the stripped text on commas and keeps the tokens that,
  once stripped, are non-empty runs of digit characters (\<^verbatim>\<open>isdigit\<close>): a token
  with a sign or an underscore is dropped, although \<^verbatim>\<open>int\<close> would read it. When
  every kept token is a decimal literal that \<^verbatim>\<open>int\<close> converts, the result is, in
  the order of the reply and with repetitions, the candidates at the 1-based positions the
  tokens name, the positions outside the list left out.
\<close>

theorem ai_filter_reply_selection:
  assumes "cands \<noteq> []"
    and "filter_prompt company_profile cands = Inr prompt"
    and "llm (filter_request prompt) = Inr (Some reply)"
  shows "(lower (strip reply) = ''none''
            \<longrightarrow> fst (ai_filter_circulars llm company_profile cands) = Inr [])
     \<and> (lower (strip reply) \<noteq> ''none'' \<longrightarrow> list_all decimal_token (digit_tokens reply)
            \<longrightarrow> fst (ai_filter_circulars llm company_profile cands)
                = Inr (pick_circulars cands
                         (map (\<lambda>t. digits_value t - 1) (digit_tokens reply))))"
  using ai_filter_text [where llm = llm, OF assms] by (simp add: parse_filter_reply_text)

theorem ai_filter_reply_selection_witness:
  "fst (ai_filter_circulars (llm_stub ''CBN'' '' 2, 1 ,x, 2, 0, 3'') profile_ex
          [circular_a, circular_b])
     = Inr [circular_b, circular_a, circular_b]
   \<and> fst (ai_filter_circulars (llm_stub ''CBN'' '' None '') profile_ex [circular_a, circular_b])
     = Inr []"
proof -
  obtain p where p: "filter_prompt profile_ex [circular_a, circular_b] = Inr p"
    using filter_prompt_ex by blast
  have ne: "[circular_a, circular_b] \<noteq> []" by simp
  have r: "llm_stub ''CBN'' '' 2, 1 ,x, 2, 0, 3'' (filter_request p) = Inr (Some '' 2, 1 ,x, 2, 0, 3'')"
    by (rule llm_stub_filter)
  have n: "lower (strip '' 2, 1 ,x, 2, 0, 3'') \<noteq> ''none''"
    by (simp add: strip_def isspace_def lower_def)
  have d: "list_all decimal_token [''2'', ''1'', ''2'', ''0'', ''3'']"
    by (simp add: decimal_token_def decimal_char_def int_max_str_digits_def)
  have v: "digits_value ''0'' = 0" "digits_value ''1'' = 1" "digits_value ''2'' = 2"
      "digits_value ''3'' = 3"
    by (simp_all add: digits_value_def)
  have first: "fst (ai_filter_circulars (llm_stub ''CBN'' '' 2, 1 ,x, 2, 0, 3'') profile_ex
          [circular_a, circular_b]) = Inr [circular_b, circular_a, circular_b]"
    using ai_filter_reply_selection [where llm = "llm_stub ''CBN'' '' 2, 1 ,x, 2, 0, 3''", OF ne p r]
      n d
    by (simp add: tokens_2_1_x v pick_circulars_def)
  have r': "llm_stub ''CBN'' '' None '' (filter_request p) = Inr (Some '' None '')"
    by (rule llm_stub_filter)
  have second: "fst (ai_filter_circulars (llm_stub ''CBN'' '' None '') profile_ex
          [circular_a, circular_b]) = Inr []"
    using ai_filter_reply_selection [where llm = "llm_stub ''CBN'' '' None ''", OF ne p r']
      tokens_none
    by simp
  from first second show ?thesis by simp
qed

text \<open>
  The claim as stated fails at the reply \<open>+1\<close>: \<^verbatim>\<open>int\<close> reads it as 1, so the
  claim selects the first candidate, while \<^verbatim>\<open>isdigit\<close> refuses it and the
  function returns nothing.
\<close>

theorem ai_filter_reply_selection_counterexample:
  "fst (ai_filter_circulars (llm_stub ''CBN'' ''+1'') profile_ex [circular_a, circular_b])
     \<noteq> Inr (claimed_selection [circular_a, circular_b] ''+1'')
   \<and> fst (ai_filter_circulars (llm_stub ''CBN'' ''+1'') profile_ex [circular_a, circular_b])
     = Inr []
   \<and> claimed_selection [circular_a, circular_b] ''+1'' = [circular_a]
   \<and> py_int ''+1'' = Inr 1"
proof -
  obtain p where p: "filter_prompt profile_ex [circular_a, circular_b] = Inr p"
    using filter_prompt_ex by blast
  have ne: "[circular_a, circular_b] \<noteq> []" by simp
  have r: "llm_stub ''CBN'' ''+1'' (filter_request p) = Inr (Some ''+1'')"
    by (rule llm_stub_filter)
  have n: "lower (strip ''+1'') \<noteq> ''none''"
    by (simp add: strip_def isspace_def lower_def)
  have "fst (ai_filter_circulars (llm_stub ''CBN'' ''+1'') profile_ex [circular_a, circular_b])
        = Inr []"
    using ai_filter_text [where llm = "llm_stub ''CBN'' ''+1''", OF ne p r]
    by (simp add: parse_filter_reply_text n tokens_plus_1 pick_circulars_def)
  then show ?thesis
    by (simp add: claimed_plus_1 py_int_plus_1)
qed

text \<open>
  C9. On an empty candidate list the classifier returns the empty list and issues no
  request. In the endpoint, when the regulation store returns no candidate, the only
  request of the run is the advisor's, and a 200 response carries no circular.
\<close>

theorem empty_candidates_skip_classifier:
  assumes "build_profile data = Inr profile0"
    and "suggest_regulators (complete env) profile0 = (Inr suggested, calls1)"
    and "search_keywords (set_iter env)
           (dict_set profile0 ''suggested_regulators'' (PList (map PStr suggested)))
         = Inr keywords"
    and "find_regulations env (mongo_query suggested keywords) = Inr []"
  shows "ai_filter_circulars llm company_profile [] = (Inr [], [])
     \<and> (\<exists>prompt. regulator_prompt profile0 = Inr prompt
            \<and> snd (match_pipeline env data) = [regulator_request prompt])
     \<and> (\<forall>r. fst (match_pipeline env data) = Ok200 r
            \<longrightarrow> total_relevant_circulars r = 0 \<and> circulars r = PList [])"
proof -
  obtain prompt where p: "regulator_prompt profile0 = Inr prompt" "calls1 = [regulator_request prompt]"
    using suggest_regulators_calls [OF assms(2)] by blast
  have run: "match_pipeline env data
        = (match_response (dict_set profile0 ''suggested_regulators'' (PList (map PStr suggested))) [],
           calls1)"
    using assms by (simp add: match_pipeline_def)
  have resp: "match_response cp [] = Ok200 r
        \<Longrightarrow> total_relevant_circulars r = 0 \<and> circulars r = PList []" for cp r
    by (auto simp add: match_response_def split: pyval.splits)
  show ?thesis
    using p run resp by (simp add: ai_filter_circulars_def)
qed

theorem empty_candidates_skip_classifier_witness:
  "ai_filter_circulars llm_down profile_ex [] = (Inr [], [])
   \<and> length (snd (match_pipeline (env_stub acme_only [] (llm_stub ''CBN'' ''1'')) company_ex)) = 1
   \<and> fst (match_pipeline (env_stub acme_only [] (llm_stub ''CBN'' ''1'')) company_ex)
       = Ok200 \<lparr>company_name = ''Acme'', total_relevant_circulars = 0, circulars = PList []\<rparr>"
proof -
  let ?env = "env_stub acme_only [] (llm_stub ''CBN'' ''1'')"
  obtain p where p: "regulator_prompt profile_of_company_ex = Inr p"
    using regulator_prompt_company_ex by blast
  have adv: "suggest_regulators (complete ?env) profile_of_company_ex
        = (Inr [''CBN''], [regulator_request p])"
    using suggest_regulators_text [OF p, where llm = "complete ?env" and reply = "''CBN''"]
    by (simp add: env_stub_def llm_stub_advisor strip_CBN del: set_map)
  have kws: "search_keywords (set_iter ?env)
           (dict_set profile_of_company_ex ''suggested_regulators'' (PList (map PStr [''CBN''])))
         = Inr [''banking'', ''retail'', ''lending'']"
    by (simp add: env_stub_def keywords_company_ex)
  have none: "find_regulations ?env (mongo_query [''CBN''] [''banking'', ''retail'', ''lending'']) = Inr []"
    by (simp add: env_stub_def)
  have resp: "fst (match_pipeline ?env company_ex)
       = Ok200 \<lparr>company_name = ''Acme'', total_relevant_circulars = 0, circulars = PList []\<rparr>"
    using build_profile_company_ex adv kws none
    by (simp add: match_pipeline_def match_response_def dict_set_def dict_get_def
        profile_of_company_ex_def)
  show ?thesis
    using empty_candidates_skip_classifier [OF build_profile_company_ex adv kws none,
        where llm = llm_down and company_profile = profile_ex] resp
    by auto
qed

subsection \<open>The regulator advisor\<close>

text \<open>
  C6. When the completion service answers with a text, the advisor strips it, splits it on
  commas, strips every token and keeps the tokens that are codes of the table; whatever it
  returns is a list of codes of the table, which has the seven codes listed. A token that
  is no code is dropped and raises nothing.
\<close>

theorem suggest_regulators_within_table:
  "(regulator_prompt cp = Inr p \<longrightarrow> llm (regulator_request p) = Inr (Some reply) \<longrightarrow>
      fst (suggest_regulators llm cp)
        = Inr (filter (\<lambda>code. code \<in> set (map fst regulators))
                 (map strip (split_sep CHR '','' (strip reply)))))
   \<and> (fst (suggest_regulators llm cp) = Inr codes \<longrightarrow> set codes \<subseteq> set (map fst regulators))
   \<and> map fst regulators = [''CBN'', ''NDPC'', ''NDIC'', ''SEC'', ''FCCPC'', ''EFCC'', ''NAICOM'']"
proof -
  have "set codes \<subseteq> set (map fst regulators)" if "fst (suggest_regulators llm cp) = Inr codes"
    using that
    by (auto simp add: suggest_regulators_def parse_regulator_reply_def bind_eq_Inr Let_def
        split: sum.splits option.splits if_splits)
  then show ?thesis
    using suggest_regulators_text [of cp p llm reply] regulator_codes by simp
qed

theorem suggest_regulators_within_table_witness:
  "fst (suggest_regulators (llm_stub '' CBN, XYZ,NDPC , cbn'' ''1'') profile_of_company_ex)
     = Inr [''CBN'', ''NDPC'']"
proof -
  obtain p where p: "regulator_prompt profile_of_company_ex = Inr p"
    using regulator_prompt_company_ex by blast
  have "filter (\<lambda>code. code \<in> set (map fst regulators))
          (map strip (split_sep CHR '','' (strip '' CBN, XYZ,NDPC , cbn''))) = [''CBN'', ''NDPC'']"
    by (simp add: regulator_codes strip_def isspace_def)
  then show ?thesis
    using suggest_regulators_within_table [of profile_of_company_ex p
        "llm_stub '' CBN, XYZ,NDPC , cbn'' ''1''" "'' CBN, XYZ,NDPC , cbn''" "[]"] p
    by (simp add: llm_stub_advisor del: set_map)
qed

text \<open>
  C3. The advisor at a failing completion service: what the call raises leaves
  \<open>suggest_regulators\<close>, and the endpoint answers 500. No empty list is returned in
  its place. The same holds when the reply carries no content.
\<close>

theorem suggest_regulators_propagates_failure:
  "fst (suggest_regulators llm_down profile_of_company_ex)
     = Inl (UpstreamError ''connection refused'')
   \<and> fst (suggest_regulators (\<lambda>req. Inr None) profile_of_company_ex) = Inl AttributeError
   \<and> fst (match_circulars_for_company (env_stub acme_only [circular_a] llm_down) ''acme'')
     = ServerError500 (UpstreamError ''connection refused'')"
proof -
  obtain p where p: "regulator_prompt profile_of_company_ex = Inr p"
    using regulator_prompt_company_ex by blast
  have down: "llm_down (regulator_request p) = Inl (UpstreamError ''connection refused'')"
    by (simp add: llm_down_def)
  have 1: "fst (suggest_regulators llm_down profile_of_company_ex)
        = Inl (UpstreamError ''connection refused'')"
    using suggest_regulators_raises [OF p, where llm = llm_down, OF down] by simp
  have 2: "fst (suggest_regulators (\<lambda>req. Inr None) profile_of_company_ex) = Inl AttributeError"
    using p by (simp add: suggest_regulators_def parse_regulator_reply_def)
  have "complete (env_stub acme_only [circular_a] llm_down) (regulator_request p)
        = Inl (UpstreamError ''connection refused'')"
    by (simp add: env_stub_def llm_down_def)
  then have 3: "fst (match_pipeline (env_stub acme_only [circular_a] llm_down) company_ex)
        = ServerError500 (UpstreamError ''connection refused'')"
    using match_pipeline_advisor_raises [OF build_profile_company_ex p] by simp
  show ?thesis
    using 1 2 3 by (simp add: match_acme)
qed

subsection \<open>The company profile\<close>

text \<open>
  C7 (amended). For a raw company document whose \<open>country\<close> field is absent or is a
  mapping, the profile is built without an error: \<open>name\<close> defaults to
  \<open>Unknown Company\<close>; \<open>industry\<close>, \<open>businessCategory\<close>,
  \<open>businessSubCategory\<close> and \<open>description\<close> default to the empty string and
  \<open>services\<close> to the empty list when the field is absent; \<open>country\<close> is the nested
  name, and \<open>Nigeria\<close> when the country field or its name is absent.
\<close>

theorem build_profile_defaults:
  assumes "map_of data ''country'' = None \<or> map_of data ''country'' = Some (PDict c)"
  shows "build_profile data =
     Inr [(''name'', case map_of data ''name'' of None \<Rightarrow> PStr ''Unknown Company'' | Some v \<Rightarrow> v),
          (''industry'', case map_of data ''industry'' of None \<Rightarrow> PStr [] | Some v \<Rightarrow> v),
          (''businessCategory'',
             case map_of data ''businessCategory'' of None \<Rightarrow> PStr [] | Some v \<Rightarrow> v),
          (''businessSubCategory'',
             case map_of data ''businessSubCategory'' of None \<Rightarrow> PStr [] | Some v \<Rightarrow> v),
          (''services'', case map_of data ''services'' of None \<Rightarrow> PList [] | Some v \<Rightarrow> v),
          (''description'', case map_of data ''description'' of None \<Rightarrow> PStr [] | Some v \<Rightarrow> v),
          (''country'',
             if map_of data ''country'' = None then PStr ''Nigeria''
             else (case map_of c ''name'' of None \<Rightarrow> PStr ''Nigeria'' | Some v \<Rightarrow> v))]"
  using assms by (auto simp add: build_profile_def attr_get_def dict_get_def)

theorem build_profile_defaults_witness:
  "build_profile [(''industry'', PStr ''Banking''), (''country'', PDict [(''code'', PStr ''NG'')])]
     = Inr [(''name'', PStr ''Unknown Company''), (''industry'', PStr ''Banking''),
            (''businessCategory'', PStr []), (''businessSubCategory'', PStr []),
            (''services'', PList []), (''description'', PStr []),
            (''country'', PStr ''Nigeria'')]"
  using build_profile_defaults
          [of "[(''industry'', PStr ''Banking''), (''country'', PDict [(''code'', PStr ''NG'')])]"
              "[(''code'', PStr ''NG'')]"]
  by simp

text \<open>
  The claim as stated fails twice: the name of the empty document is not the empty string,
  and a document whose country is a plain string makes the construction raise.
\<close>

theorem build_profile_defaults_counterexample:
  "build_profile []
     = Inr [(''name'', PStr ''Unknown Company''), (''industry'', PStr []),
            (''businessCategory'', PStr []), (''businessSubCategory'', PStr []),
            (''services'', PList []), (''description'', PStr []),
            (''country'', PStr ''Nigeria'')]
   \<and> PStr ''Unknown Company'' \<noteq> PStr []
   \<and> build_profile [(''country'', PStr ''Nigeria'')] = Inl AttributeError"
  by (simp add: build_profile_def attr_get_def dict_get_def)

subsection \<open>The company lookup\<close>

text \<open>
  C8 (amended). The lookup queries by ObjectId whenever the identifier is built from the
  string, that is when it has 24 characters that \<^verbatim>\<open>bytes.fromhex\<close> reads:
  hexadecimal digits in pairs, with ASCII whitespace between pairs skipped. It queries by
  the raw string only when building the identifier raises or the first query raises; a
  first query that finds nothing is final. The endpoint answers 404 exactly when the
  lookup returns no document (or an empty one); on a document it runs the pipeline, and a
  200 response carries the company's name, the count and the circulars.
\<close>

theorem company_lookup_contract:
  "lookup_company env company_id =
     (case object_id company_id of
        Inl e \<Rightarrow> find_one_company env (PStr company_id)
      | Inr oid \<Rightarrow>
          (case find_one_company env oid of
             Inl e \<Rightarrow> find_one_company env (PStr company_id)
           | Inr found \<Rightarrow> Inr found))
   \<and> ((\<exists>oid. object_id company_id = Inr oid)
        \<longleftrightarrow> length company_id = 24 \<and> (\<exists>digits. fromhex company_id = Inr digits))
   \<and> (\<forall>oid. object_id company_id = Inr oid \<longrightarrow>
          oid = PObjectId (lower (filter (\<lambda>c. \<not> hex_space c) company_id))
        \<and> list_all (\<lambda>c. hex_char c \<or> hex_space c) company_id)
   \<and> (length company_id = 24 \<longrightarrow> list_all hex_char company_id \<longrightarrow>
        object_id company_id = Inr (PObjectId (lower company_id)))
   \<and> ((\<exists>msg. fst (match_circulars_for_company env company_id) = NotFound404 msg)
        \<longleftrightarrow> (lookup_company env company_id = Inr None
             \<or> lookup_company env company_id = Inr (Some [])))
   \<and> (lookup_company env company_id = Inr (Some data) \<longrightarrow> data \<noteq> [] \<longrightarrow>
        match_circulars_for_company env company_id = match_pipeline env data)
   \<and> (\<forall>r. fst (match_circulars_for_company env company_id) = Ok200 r \<longrightarrow>
          (\<exists>found relevant.
              lookup_company env company_id = Inr (Some found)
            \<and> dict_get found ''name'' (PStr ''Unknown Company'') = PStr (company_name r)
            \<and> total_relevant_circulars r = length relevant
            \<and> circulars r = PList (map (\<lambda>d. serialize_doc (PDict d)) relevant)))"
proof -
  have 1: "lookup_company env company_id =
     (case object_id company_id of
        Inl e \<Rightarrow> find_one_company env (PStr company_id)
      | Inr oid \<Rightarrow>
          (case find_one_company env oid of
             Inl e \<Rightarrow> find_one_company env (PStr company_id)
           | Inr found \<Rightarrow> Inr found))"
    by (simp add: lookup_company_def split: sum.splits)
  have 2: "(\<exists>oid. object_id company_id = Inr oid)
        \<longleftrightarrow> length company_id = 24 \<and> (\<exists>digits. fromhex company_id = Inr digits)"
    by (auto simp add: object_id_def split: sum.splits)
  have 3: "oid = PObjectId (lower (filter (\<lambda>c. \<not> hex_space c) company_id))
        \<and> list_all (\<lambda>c. hex_char c \<or> hex_space c) company_id"
    if "object_id company_id = Inr oid" for oid
    using that fromhex_reads [of company_id]
    by (auto simp add: object_id_def split: if_splits sum.splits)
  have 4: "length company_id = 24 \<longrightarrow> list_all hex_char company_id \<longrightarrow>
        object_id company_id = Inr (PObjectId (lower company_id))"
    by (simp add: object_id_def fromhex_digits)
  have 5: "(\<exists>msg. fst (match_circulars_for_company env company_id) = NotFound404 msg)
        \<longleftrightarrow> (lookup_company env company_id = Inr None
             \<or> lookup_company env company_id = Inr (Some []))"
    by (auto simp add: match_circulars_for_company_def match_pipeline_not_404
        split: sum.splits option.splits)
  have 6: "lookup_company env company_id = Inr (Some data) \<longrightarrow> data \<noteq> [] \<longrightarrow>
        match_circulars_for_company env company_id = match_pipeline env data"
    by (simp add: match_circulars_for_company_def)
  have 7: "\<exists>found relevant.
              lookup_company env company_id = Inr (Some found)
            \<and> dict_get found ''name'' (PStr ''Unknown Company'') = PStr (company_name r)
            \<and> total_relevant_circulars r = length relevant
            \<and> circulars r = PList (map (\<lambda>d. serialize_doc (PDict d)) relevant)"
    if ok: "fst (match_circulars_for_company env company_id) = Ok200 r" for r
  proof -
    obtain found where d: "lookup_company env company_id = Inr (Some found)"
        "fst (match_pipeline env found) = Ok200 r"
      using match_Ok200_lookup [OF ok] by blast
    from match_pipeline_Ok200 [OF d(2)] obtain profile0 suggested relevant
      where run: "build_profile found = Inr profile0"
        "match_response
           (dict_set profile0 ''suggested_regulators'' (PList (map PStr suggested))) relevant
         = Ok200 r"
      by blast
    from match_response_Ok200 [OF run(2)] build_profile_name [OF run(1)]
    have "dict_get found ''name'' (PStr ''Unknown Company'') = PStr (company_name r)"
      "total_relevant_circulars r = length relevant"
      "circulars r = PList (map (\<lambda>d. serialize_doc (PDict d)) relevant)"
      by simp_all
    with d(1) show ?thesis by blast
  qed
  show ?thesis using 1 2 3 4 5 6 7 by blast
qed

text \<open>
  Two runs. The identifier \<open>acme\<close> is no ObjectId, and the company is found under the
  string. The identifier of 22 digits and two spaces is read as an ObjectId of eleven
  bytes; the query by it finds nothing, the string is not tried, and the answer is 404
  although the company is stored under that very string.
\<close>

theorem company_lookup_contract_witness:
  "lookup_company (env_stub acme_only [circular_a, circular_b] (llm_stub ''CBN'' ''1'')) ''acme''
     = find_one_company (env_stub acme_only [circular_a, circular_b] (llm_stub ''CBN'' ''1''))
         (PStr ''acme'')
   \<and> \<not> (\<exists>msg. fst (match_circulars_for_company
                     (env_stub acme_only [circular_a, circular_b] (llm_stub ''CBN'' ''1''))
                     ''acme'') = NotFound404 msg)
   \<and> match_circulars_for_company
        (env_stub acme_only [circular_a, circular_b] (llm_stub ''CBN'' ''1'')) ''acme''
     = match_pipeline (env_stub acme_only [circular_a, circular_b] (llm_stub ''CBN'' ''1''))
         company_ex
   \<and> (\<exists>found relevant.
         lookup_company (env_stub acme_only [circular_a, circular_b] (llm_stub ''CBN'' ''1''))
           ''acme'' = Inr (Some found)
       \<and> dict_get found ''name'' (PStr ''Unknown Company'') = PStr ''Acme''
       \<and> (1::nat) = length relevant
       \<and> PList [serialize_doc (PDict circular_a)]
           = PList (map (\<lambda>d. serialize_doc (PDict d)) relevant))
   \<and> object_id ''65a1f0c2e4b0a1b2c3d4e5  '' = Inr (PObjectId ''65a1f0c2e4b0a1b2c3d4e5'')
   \<and> lookup_company (env_stub spaced_keyed [] llm_down) ''65a1f0c2e4b0a1b2c3d4e5  '' = Inr None
   \<and> (\<exists>msg. fst (match_circulars_for_company (env_stub spaced_keyed [] llm_down)
                    ''65a1f0c2e4b0a1b2c3d4e5  '') = NotFound404 msg)"
proof -
  let ?env = "env_stub acme_only [circular_a, circular_b] (llm_stub ''CBN'' ''1'')"
  let ?r = "\<lparr>company_name = ''Acme'', total_relevant_circulars = 1,
             circulars = PList [serialize_doc (PDict circular_a)]\<rparr>"
  note contract = company_lookup_contract [of ?env "''acme''" company_ex]
  have l: "lookup_company ?env ''acme'' = Inr (Some company_ex)"
    by (rule lookup_acme)
  have f: "find_one_company ?env (PStr ''acme'') = Inr (Some company_ex)"
    by (simp add: env_stub_def acme_only_def)
  have ok: "fst (match_circulars_for_company ?env ''acme'') = Ok200 ?r"
    by (rule match_acme_ab)
  have n: "lookup_company ?env ''acme'' \<noteq> Inr None"
      "lookup_company ?env ''acme'' \<noteq> Inr (Some [])"
    using l company_ex_nonempty by simp_all
  have a: "\<not> (\<exists>msg. fst (match_circulars_for_company ?env ''acme'') = NotFound404 msg)"
    using contract n by blast
  have b: "match_circulars_for_company ?env ''acme'' = match_pipeline ?env company_ex"
    using contract l company_ex_nonempty by blast
  have c: "\<exists>found relevant.
         lookup_company ?env ''acme'' = Inr (Some found)
       \<and> dict_get found ''name'' (PStr ''Unknown Company'') = PStr (company_name ?r)
       \<and> total_relevant_circulars ?r = length relevant
       \<and> circulars ?r = PList (map (\<lambda>d. serialize_doc (PDict d)) relevant)"
    using contract ok by blast
  let ?env2 = "env_stub spaced_keyed [] llm_down"
  let ?id = "''65a1f0c2e4b0a1b2c3d4e5  ''"
  note spaced = company_lookup_contract [of ?env2 ?id "[]"]
  have o: "object_id ?id = Inr (PObjectId ''65a1f0c2e4b0a1b2c3d4e5'')"
    by (rule object_id_spaced)
  have q: "find_one_company ?env2 (PObjectId ''65a1f0c2e4b0a1b2c3d4e5'') = Inr None"
    by (simp add: env_stub_def spaced_keyed_def)
  have l2: "lookup_company ?env2 ?id = Inr None"
    using spaced o q by simp
  have e: "\<exists>msg. fst (match_circulars_for_company ?env2 ?id) = NotFound404 msg"
    using spaced l2 by blast
  show ?thesis
    using l f a b c o l2 e by simp
qed

text \<open>
  The claim as stated fails where the identifier is 24 hexadecimal digits and the company
  is stored under that string: the raw string would find it, the answer is 404.
\<close>

theorem company_lookup_counterexample:
  "find_one_company (env_stub string_keyed [] llm_down) (PStr ''65a1f0c2e4b0a1b2c3d4e5f6'')
     = Inr (Some [(''_id'', PStr ''65a1f0c2e4b0a1b2c3d4e5f6''), (''name'', PStr ''Acme'')])
   \<and> fst (match_circulars_for_company (env_stub string_keyed [] llm_down)
            ''65a1f0c2e4b0a1b2c3d4e5f6'')
     = NotFound404 ''Company not found in ecosystem database''"
  by (simp add: match_circulars_for_company_def lookup_company_def object_id_hex
      env_stub_def string_keyed_def)

subsection \<open>The keyword filter\<close>

text \<open>
  C5. For a profile whose industry and business category are strings and whose services
  are a list of strings, with \<^verbatim>\<open>list(set(...))\<close> giving each element once in some
  order: the keywords are, without repetition, exactly the strings longer than three
  characters among the lower-cased industry, the lower-cased business category and the
  whitespace-separated tokens of the lower-cased services; and the query is the disjunction
  of the regulator-code membership in the advisor's codes, the tag membership in the
  keywords, and the case-insensitive regular expression of the first five keywords on
  \<open>affected_entities\<close>, the last one being the existence test exactly when there is no
  keyword.
\<close>

theorem keyword_filter_query:
  assumes "\<forall>xs. set (to_list xs) = set xs \<and> distinct (to_list xs)"
    and "dict_get cp ''industry'' PNone = PStr industry"
    and "dict_get cp ''businessCategory'' PNone = PStr category"
    and "dict_get cp ''services'' (PList []) = PList (map PStr services)"
  shows "\<exists>kws. search_keywords to_list cp = Inr kws
     \<and> distinct kws
     \<and> set kws = {kw. 3 < length kw
                     \<and> (kw = lower industry \<or> kw = lower category
                          \<or> (\<exists>s \<in> set services. kw \<in> set (split_ws (lower s))))}
     \<and> mongo_query regs kws =
         Or [FieldOp ''regulator.code'' (In (map PStr regs)),
             FieldOp ''tags'' (In (map PStr kws)),
             FieldOp ''affected_entities''
               (if kws = [] then Exists True else Regex (join ''|'' (take 5 kws)) ''i'')]"
proof -
  let ?tokens = "(if industry = [] then [] else [lower industry])
             @ (if category = [] then [] else [lower category])
             @ concat (map (\<lambda>s. split_ws (lower s)) services)"
  let ?kws = "to_list (filter (\<lambda>kw. 3 < length kw) ?tokens)"
  have 1: "search_keywords to_list cp = Inr ?kws"
    using assms(2-4) by (rule search_keywords_strs)
  have 2: "distinct ?kws" using assms(1) by blast
  have "set ?kws = set (filter (\<lambda>kw. 3 < length kw) ?tokens)"
    using assms(1) by blast
  also have "\<dots> = {kw. 3 < length kw
                     \<and> (kw = lower industry \<or> kw = lower category
                          \<or> (\<exists>s \<in> set services. kw \<in> set (split_ws (lower s))))}"
    by (auto simp add: lower_length)
  finally have 3: "set ?kws = {kw. 3 < length kw
                     \<and> (kw = lower industry \<or> kw = lower category
                          \<or> (\<exists>s \<in> set services. kw \<in> set (split_ws (lower s))))}" .
  have 4: "mongo_query regs ?kws =
         Or [FieldOp ''regulator.code'' (In (map PStr regs)),
             FieldOp ''tags'' (In (map PStr ?kws)),
             FieldOp ''affected_entities''
               (if ?kws = [] then Exists True else Regex (join ''|'' (take 5 ?kws)) ''i'')]"
    by (simp add: mongo_query_def)
  from 1 2 3 4 show ?thesis by blast
qed

theorem keyword_filter_query_witness:
  "\<exists>kws. search_keywords remdups profile_of_company_ex = Inr kws
     \<and> distinct kws
     \<and> set kws = {kw. 3 < length kw
                     \<and> (kw = lower ''Banking'' \<or> kw = lower []
                          \<or> (\<exists>s \<in> set [''Retail lending'']. kw \<in> set (split_ws (lower s))))}
     \<and> mongo_query [''CBN''] kws =
         Or [FieldOp ''regulator.code'' (In (map PStr [''CBN''])),
             FieldOp ''tags'' (In (map PStr kws)),
             FieldOp ''affected_entities''
               (if kws = [] then Exists True else Regex (join ''|'' (take 5 kws)) ''i'')]"
proof -
  have o: "\<forall>xs :: string list. set (remdups xs) = set xs \<and> distinct (remdups xs)"
    by simp
  have i: "dict_get profile_of_company_ex ''industry'' PNone = PStr ''Banking''"
    and c: "dict_get profile_of_company_ex ''businessCategory'' PNone = PStr []"
    and s: "dict_get profile_of_company_ex ''services'' (PList [])
            = PList (map PStr [''Retail lending''])"
    by (simp_all add: profile_of_company_ex_def dict_get_def)
  show ?thesis
    by (rule keyword_filter_query [OF o i c s])
qed

text \<open>
  C10. Every keyword is its own lower-case form, and the tag alternative of the query
  matches a document exactly when its \<open>tags\<close> value is one of the keywords or is an
  array with an element equal to one of them, character for character: a document all of
  whose tags hold an upper-case letter is not matched by it. Only the third alternative
  carries the option \<open>i\<close>.
\<close>

theorem tag_alternative_case_sensitive:
  assumes "\<forall>xs. set (to_list xs) = set xs \<and> distinct (to_list xs)"
    and "search_keywords to_list cp = Inr kws"
  shows "mongo_query regs kws =
         Or [FieldOp ''regulator.code'' (In (map PStr regs)),
             FieldOp ''tags'' (In (map PStr kws)),
             FieldOp ''affected_entities''
               (if kws = [] then Exists True else Regex (join ''|'' (take 5 kws)) ''i'')]
     \<and> (\<forall>kw \<in> set kws. lower kw = kw)
     \<and> (in_matches d ''tags'' (map PStr kws) \<longleftrightarrow>
          (\<exists>kw \<in> set kws. map_of d ''tags'' = Some (PStr kw)
             \<or> (\<exists>tags. map_of d ''tags'' = Some (PList tags) \<and> PStr kw \<in> set tags)))
     \<and> (\<forall>tags. map_of d ''tags'' = Some (PList (map PStr tags))
            \<longrightarrow> (\<forall>t \<in> set tags. lower t \<noteq> t)
            \<longrightarrow> \<not> in_matches d ''tags'' (map PStr kws))"
proof -
  have 1: "mongo_query regs kws =
         Or [FieldOp ''regulator.code'' (In (map PStr regs)),
             FieldOp ''tags'' (In (map PStr kws)),
             FieldOp ''affected_entities''
               (if kws = [] then Exists True else Regex (join ''|'' (take 5 kws)) ''i'')]"
    by (simp add: mongo_query_def)
  have 2: "\<forall>kw \<in> set kws. lower kw = kw"
    using search_keywords_lower [OF assms(2) assms(1)] by blast
  have 3: "\<not> in_matches d ''tags'' (map PStr kws)"
    if "map_of d ''tags'' = Some (PList (map PStr tags))" "\<forall>t \<in> set tags. lower t \<noteq> t"
    for tags
    using that 2 by (auto simp add: in_matches_strings)
  show ?thesis
    using 1 2 3 in_matches_strings [of d "''tags''" kws] by blast
qed

theorem tag_alternative_case_sensitive_witness:
  "in_matches circular_a ''tags'' (map PStr [''banking'', ''retail'', ''lending''])
   \<and> \<not> in_matches circular_upper ''tags'' (map PStr [''banking'', ''retail'', ''lending''])
   \<and> lower ''Banking'' = ''banking''"
proof -
  let ?cp = "dict_set profile_of_company_ex ''suggested_regulators'' (PList [PStr ''CBN''])"
  let ?kws = "[''banking'', ''retail'', ''lending'']"
  have o: "\<forall>xs :: string list. set (remdups xs) = set xs \<and> distinct (remdups xs)"
    by simp
  have k: "search_keywords remdups ?cp = Inr ?kws"
    by (rule keywords_company_ex)
  have a: "map_of circular_a ''tags'' = Some (PList [PStr ''banking''])"
    by (simp add: circular_a_def)
  have u: "map_of circular_upper ''tags'' = Some (PList (map PStr [''Banking'']))"
    by (simp add: circular_upper_def)
  have l: "lower ''Banking'' = ''banking''"
    by (simp add: lower_def lower_char_def char_of_eq_iff)
  then have n: "\<forall>t \<in> set [''Banking'']. lower t \<noteq> t"
    by simp
  have "in_matches circular_a ''tags'' (map PStr ?kws)"
    using tag_alternative_case_sensitive [OF o k, of "[''CBN'']" circular_a] a by simp
  moreover have "\<not> in_matches circular_upper ''tags'' (map PStr ?kws)"
    using tag_alternative_case_sensitive [OF o k, of "[''CBN'']" circular_upper] u n by blast
  ultimately show ?thesis using l by simp
qed

subsection \<open>The match result\<close>

text \<open>
  C4 (amended). In every run of the endpoint that answers 200, the count equals the
  number of circulars returned, and the circulars are the serialised forms
  (\<open>serialize_doc\<close>) of documents that all belong to the candidate list the regulation
  store returned for the keyword query: the classifier only narrows that list. Where the
  selected documents hold no ObjectId, the circulars returned are those documents.
\<close>

theorem match_result_within_candidates:
  assumes "fst (match_circulars_for_company env company_id) = Ok200 r"
  shows "\<exists>data profile0 suggested calls1 kws candidates relevant.
           lookup_company env company_id = Inr (Some data)
         \<and> build_profile data = Inr profile0
         \<and> suggest_regulators (complete env) profile0 = (Inr suggested, calls1)
         \<and> search_keywords (set_iter env)
              (dict_set profile0 ''suggested_regulators'' (PList (map PStr suggested)))
             = Inr kws
         \<and> find_regulations env (mongo_query suggested kws) = Inr candidates
         \<and> set relevant \<subseteq> set candidates
         \<and> total_relevant_circulars r = length relevant
         \<and> circulars r = PList (map (\<lambda>d. serialize_doc (PDict d)) relevant)
         \<and> (list_all (\<lambda>d. object_id_free (PDict d)) relevant
              \<longrightarrow> circulars r = PList (map PDict relevant))"
proof -
  obtain data where d: "lookup_company env company_id = Inr (Some data)"
      "fst (match_pipeline env data) = Ok200 r"
    using match_Ok200_lookup [OF assms] by blast
  from match_pipeline_Ok200 [OF d(2)] obtain profile0 suggested calls1 kws candidates relevant
    where run: "build_profile data = Inr profile0"
      "suggest_regulators (complete env) profile0 = (Inr suggested, calls1)"
      "search_keywords (set_iter env)
         (dict_set profile0 ''suggested_regulators'' (PList (map PStr suggested))) = Inr kws"
      "find_regulations env (mongo_query suggested kws) = Inr candidates"
      "set relevant \<subseteq> set candidates"
      "match_response
         (dict_set profile0 ''suggested_regulators'' (PList (map PStr suggested))) relevant
       = Ok200 r"
    by blast
  from match_response_Ok200 [OF run(6)]
  have res: "total_relevant_circulars r = length relevant"
    "circulars r = PList (map (\<lambda>d. serialize_doc (PDict d)) relevant)"
    by simp_all
  have "map (\<lambda>d. serialize_doc (PDict d)) relevant = map PDict relevant"
    if "list_all (\<lambda>d. object_id_free (PDict d)) relevant"
    using that by (intro map_cong refl serialize_doc_unchanged) (simp add: list_all_iff)
  with res have "list_all (\<lambda>d. object_id_free (PDict d)) relevant
              \<longrightarrow> circulars r = PList (map PDict relevant)"
    by simp
  with d(1) run(1-5) res show ?thesis by blast
qed

theorem match_result_within_candidates_witness:
  "\<exists>data profile0 suggested calls1 kws candidates relevant.
      lookup_company (env_stub acme_only [circular_a, circular_b] (llm_stub ''CBN'' ''1''))
        ''acme'' = Inr (Some data)
    \<and> build_profile data = Inr profile0
    \<and> suggest_regulators
         (complete (env_stub acme_only [circular_a, circular_b] (llm_stub ''CBN'' ''1'')))
         profile0 = (Inr suggested, calls1)
    \<and> search_keywords
         (set_iter (env_stub acme_only [circular_a, circular_b] (llm_stub ''CBN'' ''1'')))
         (dict_set profile0 ''suggested_regulators'' (PList (map PStr suggested))) = Inr kws
    \<and> find_regulations (env_stub acme_only [circular_a, circular_b] (llm_stub ''CBN'' ''1''))
         (mongo_query suggested kws) = Inr candidates
    \<and> set relevant \<subseteq> set candidates
    \<and> (1::nat) = length relevant
    \<and> PList [serialize_doc (PDict circular_a)]
        = PList (map (\<lambda>d. serialize_doc (PDict d)) relevant)
    \<and> (list_all (\<lambda>d. object_id_free (PDict d)) relevant
          \<longrightarrow> PList [serialize_doc (PDict circular_a)] = PList (map PDict relevant))"
  using match_result_within_candidates [OF match_acme_ab] by simp

text \<open>
  The claim as stated fails on a candidate that holds an ObjectId: the circular returned
  holds the identifier's string and is none of the candidates.
\<close>

theorem match_result_within_candidates_counterexample:
  "fst (match_circulars_for_company
          (env_stub acme_only [circular_a, circular_b] (llm_stub ''CBN'' ''1'')) ''acme'')
     = Ok200 \<lparr>company_name = ''Acme'', total_relevant_circulars = 1,
              circulars = PList [PDict [(''_id'', PStr ''65a1f0c2e4b0a1b2c3d4e5f6''),
                                        (''title'', PStr ''A''),
                                        (''tags'', PList [PStr ''banking''])]]\<rparr>
   \<and> find_regulations (env_stub acme_only [circular_a, circular_b] (llm_stub ''CBN'' ''1''))
        (mongo_query [''CBN''] [''banking'', ''retail'', ''lending''])
     = Inr [circular_a, circular_b]
   \<and> PDict [(''_id'', PStr ''65a1f0c2e4b0a1b2c3d4e5f6''), (''title'', PStr ''A''),
             (''tags'', PList [PStr ''banking''])]
     \<notin> set (map PDict [circular_a, circular_b])"
  by (simp add: match_acme_ab serialize_circular_a)
     (simp add: env_stub_def circular_a_def circular_b_def)

end
